theory Spec2Isabelle
  imports Main "HOL-Library.Word"
begin

section \<open>JavaScript strings\<close>

text \<open>
  A JavaScript string is a sequence of UTF-16 code units. \<open>js\<close> writes an ASCII literal
  of the source as such a sequence.
\<close>

type_synonym jschar = "16 word"
type_synonym jstring = "jschar list"
type_synonym byte = "8 word"

definition js :: "string \<Rightarrow> jstring" where
  "js s = map (\<lambda>c. of_nat (of_char c)) s"

text \<open>\<open>String.prototype.endsWith\<close>.\<close>

definition endsWith :: "jstring \<Rightarrow> jstring \<Rightarrow> bool" where
  "endsWith s suffix = (length suffix \<le> length s \<and> drop (length s - length suffix) s = suffix)"

text \<open>
  \<open>Buffer.byteLength(s, 'utf8')\<close>: a code unit below U+0080 takes one byte, one below
  U+0800 two, a surrogate pair four, every other code unit three (a lone surrogate is
  written as U+FFFD).
\<close>

definition is_high_surrogate :: "jschar \<Rightarrow> bool" where
  "is_high_surrogate c = (0xD800 \<le> c \<and> c \<le> 0xDBFF)"

definition is_low_surrogate :: "jschar \<Rightarrow> bool" where
  "is_low_surrogate c = (0xDC00 \<le> c \<and> c \<le> 0xDFFF)"

definition unit_bytes :: "jschar \<Rightarrow> nat" where
  "unit_bytes c = (if c < 0x80 then 1 else if c < 0x800 then 2 else 3)"

fun byteLength_utf8 :: "jstring \<Rightarrow> nat" where
  "byteLength_utf8 [] = 0"
| "byteLength_utf8 [c] = unit_bytes c"
| "byteLength_utf8 (c # d # cs) =
     (if is_high_surrogate c \<and> is_low_surrogate d then 4 + byteLength_utf8 cs
      else unit_bytes c + byteLength_utf8 (d # cs))"

section \<open>Regular expressions\<close>

text \<open>
  The fragment of JavaScript regular expressions the source uses, on code units (the
  patterns carry no flag). \<open>test\<close> on a pattern anchored by \<open>^\<close> and \<open>$\<close> decides
  whether the whole string is in the pattern's language; the matcher works by derivatives.
\<close>

datatype rx = RNone | REps | RSym "jschar \<Rightarrow> bool" | RSeq rx rx | RAlt rx rx | RStar rx

definition RPlus :: "rx \<Rightarrow> rx" where
  "RPlus r = RSeq r (RStar r)"

definition ROpt :: "rx \<Rightarrow> rx" where
  "ROpt r = RAlt r REps"

fun RLit :: "jstring \<Rightarrow> rx" where
  "RLit [] = REps"
| "RLit (c # cs) = RSeq (RSym (\<lambda>x. x = c)) (RLit cs)"

primrec nullable :: "rx \<Rightarrow> bool" where
  "nullable RNone = False"
| "nullable REps = True"
| "nullable (RSym p) = False"
| "nullable (RSeq r s) = (nullable r \<and> nullable s)"
| "nullable (RAlt r s) = (nullable r \<or> nullable s)"
| "nullable (RStar r) = True"

primrec deriv :: "jschar \<Rightarrow> rx \<Rightarrow> rx" where
  "deriv c RNone = RNone"
| "deriv c REps = RNone"
| "deriv c (RSym p) = (if p c then REps else RNone)"
| "deriv c (RSeq r s) =
     (if nullable r then RAlt (RSeq (deriv c r) s) (deriv c s) else RSeq (deriv c r) s)"
| "deriv c (RAlt r s) = RAlt (deriv c r) (deriv c s)"
| "deriv c (RStar r) = RSeq (deriv c r) (RStar r)"

primrec rx_test :: "rx \<Rightarrow> jstring \<Rightarrow> bool" where
  "rx_test r [] = nullable r"
| "rx_test r (c # cs) = rx_test (deriv c r) cs"

text \<open>The language of a pattern, to state what \<open>rx_test\<close> decides.\<close>

inductive_set star :: "jstring set \<Rightarrow> jstring set" for A :: "jstring set" where
  star_nil: "[] \<in> star A"
| star_app: "u \<in> A \<Longrightarrow> v \<in> star A \<Longrightarrow> u @ v \<in> star A"

primrec lang :: "rx \<Rightarrow> jstring set" where
  "lang RNone = {}"
| "lang REps = {[]}"
| "lang (RSym p) = {[c] | c. p c}"
| "lang (RSeq r s) = {u @ v | u v. u \<in> lang r \<and> v \<in> lang s}"
| "lang (RAlt r s) = lang r \<union> lang s"
| "lang (RStar r) = star (lang r)"

text \<open>Character classes: \<open>[a-z0-9-]\<close>, \<open>\d\<close> and \<open>.\<close> (any code unit but a line terminator).\<close>

definition is_digit :: "jschar \<Rightarrow> bool" where
  "is_digit c = (0x30 \<le> c \<and> c \<le> 0x39)"

definition is_region_char :: "jschar \<Rightarrow> bool" where
  "is_region_char c = ((0x61 \<le> c \<and> c \<le> 0x7A) \<or> is_digit c \<or> c = 0x2D)"

definition is_line_terminator :: "jschar \<Rightarrow> bool" where
  "is_line_terminator c = (c = 0x0A \<or> c = 0x0D \<or> c = 0x2028 \<or> c = 0x2029)"

definition is_dot :: "jschar \<Rightarrow> bool" where
  "is_dot c = (\<not> is_line_terminator c)"

section \<open>JSON\<close>

text \<open>
  A JSON value as \<open>JSON.parse\<close> returns it. A number keeps its lexeme; an object keeps
  its members in the order of their first occurrence, each key once (a repeated key
  overwrites the value in place).
\<close>

datatype json =
    JNull
  | JBool bool
  | JNum jstring
  | JStr jstring
  | JArr "json list"
  | JObj "(jstring \<times> json) list"

text \<open>
  What the \<open>try\<close> block of \<open>parseMessageAttributes\<close> can throw: the two
  exceptions of the runtime and the five \<open>throw\<close> statements of the source.
\<close>

datatype thrown =
    SyntaxError
  | TypeError
  | TooManyAttributes nat
  | MissingDataType jstring
  | InvalidDataType json jstring
  | MissingStringValue jstring jstring
  | MissingBinaryValue jstring

fun obj_put :: "jstring \<Rightarrow> 'v \<Rightarrow> (jstring \<times> 'v) list \<Rightarrow> (jstring \<times> 'v) list" where
  "obj_put k v [] = [(k, v)]"
| "obj_put k v ((k', v') # kvs) =
     (if k' = k then (k, v) # kvs else (k', v') # obj_put k v kvs)"

subsection \<open>Tokens\<close>

datatype token = TLBrace | TRBrace | TLBrack | TRBrack | TColon | TComma | TScalar json

definition is_ws :: "jschar \<Rightarrow> bool" where
  "is_ws c = (c = 0x20 \<or> c = 0x09 \<or> c = 0x0A \<or> c = 0x0D)"

definition hex_val :: "jschar \<Rightarrow> nat option" where
  "hex_val c =
     (if 0x30 \<le> c \<and> c \<le> 0x39 then Some (unat c - 0x30)
      else if 0x61 \<le> c \<and> c \<le> 0x66 then Some (unat c - 0x61 + 10)
      else if 0x41 \<le> c \<and> c \<le> 0x46 then Some (unat c - 0x41 + 10)
      else None)"

definition hex4 :: "jschar \<Rightarrow> jschar \<Rightarrow> jschar \<Rightarrow> jschar \<Rightarrow> jschar option" where
  "hex4 h1 h2 h3 h4 =
     (case (hex_val h1, hex_val h2, hex_val h3, hex_val h4) of
        (Some a, Some b, Some c, Some d) \<Rightarrow> Some (of_nat (((a * 16 + b) * 16 + c) * 16 + d))
      | _ \<Rightarrow> None)"

definition unescape :: "jschar \<Rightarrow> jschar option" where
  "unescape e =
     (if e = 0x22 \<or> e = 0x5C \<or> e = 0x2F then Some e
      else if e = 0x62 then Some 0x08
      else if e = 0x66 then Some 0x0C
      else if e = 0x6E then Some 0x0A
      else if e = 0x72 then Some 0x0D
      else if e = 0x74 then Some 0x09
      else None)"

text \<open>
  The rest of a string literal after its opening quote: the decoded string and the input
  after the closing quote, or \<open>None\<close> where the literal is malformed.
\<close>

fun scan_string :: "jstring \<Rightarrow> jstring \<Rightarrow> (jstring \<times> jstring) option" where
  "scan_string acc [] = None"
| "scan_string acc (c # cs) =
     (if c = 0x22 then Some (rev acc, cs)
      else if c = 0x5C then
        (case cs of
           [] \<Rightarrow> None
         | e # cs' \<Rightarrow>
             if e = 0x75 then
               (case cs' of
                  h1 # h2 # h3 # h4 # cs'' \<Rightarrow>
                    (case hex4 h1 h2 h3 h4 of
                       None \<Rightarrow> None
                     | Some u \<Rightarrow> scan_string (u # acc) cs'')
                | _ \<Rightarrow> None)
             else
               (case unescape e of
                  None \<Rightarrow> None
                | Some u \<Rightarrow> scan_string (u # acc) cs'))
      else if c < 0x20 then None
      else scan_string (c # acc) cs)"

text \<open>\<open>-?(0|[1-9][0-9]*)(\.[0-9]+)?([eE][+-]?[0-9]+)?\<close>, the number lexemes of JSON.\<close>

definition number_rx :: rx where
  "number_rx =
     RSeq (ROpt (RLit (js ''-'')))
    (RSeq (RAlt (RLit (js ''0''))
                (RSeq (RSym (\<lambda>c. 0x31 \<le> c \<and> c \<le> 0x39)) (RStar (RSym is_digit))))
    (RSeq (ROpt (RSeq (RLit (js ''.'')) (RPlus (RSym is_digit))))
          (ROpt (RSeq (RSym (\<lambda>c. c = 0x65 \<or> c = 0x45))
                (RSeq (ROpt (RSym (\<lambda>c. c = 0x2B \<or> c = 0x2D)))
                      (RPlus (RSym is_digit)))))))"

definition is_num_char :: "jschar \<Rightarrow> bool" where
  "is_num_char c =
     (is_digit c \<or> c = 0x2D \<or> c = 0x2B \<or> c = 0x2E \<or> c = 0x65 \<or> c = 0x45)"

function tokens :: "jstring \<Rightarrow> token list option" where
  "tokens [] = Some []"
| "tokens (c # cs) =
     (if is_ws c then tokens cs
      else if c = 0x7B then map_option (Cons TLBrace) (tokens cs)
      else if c = 0x7D then map_option (Cons TRBrace) (tokens cs)
      else if c = 0x5B then map_option (Cons TLBrack) (tokens cs)
      else if c = 0x5D then map_option (Cons TRBrack) (tokens cs)
      else if c = 0x3A then map_option (Cons TColon) (tokens cs)
      else if c = 0x2C then map_option (Cons TComma) (tokens cs)
      else if c = 0x22 then
        (case scan_string [] cs of
           None \<Rightarrow> None
         | Some (s, rest) \<Rightarrow> map_option (Cons (TScalar (JStr s))) (tokens rest))
      else if is_num_char c then
        (let lexeme = c # takeWhile is_num_char cs in
         if rx_test number_rx lexeme
         then map_option (Cons (TScalar (JNum lexeme))) (tokens (dropWhile is_num_char cs))
         else None)
      else if take 4 (c # cs) = js ''true''
        then map_option (Cons (TScalar (JBool True))) (tokens (drop 3 cs))
      else if take 5 (c # cs) = js ''false''
        then map_option (Cons (TScalar (JBool False))) (tokens (drop 4 cs))
      else if take 4 (c # cs) = js ''null''
        then map_option (Cons (TScalar JNull)) (tokens (drop 3 cs))
      else None)"
  by pat_completeness auto
termination
proof -
  have scan: "length rest \<le> length cs" if "scan_string acc cs = Some (s, rest)"
    for acc cs s rest
    using that
  proof (induction acc cs rule: scan_string.induct)
    case (1 acc)
    then show ?case by simp
  next
    case (2 acc c cs)
    then show ?case
      by (auto split: if_splits list.splits option.splits) fastforce+
  qed
  show ?thesis
    by (relation "measure length")
       (auto simp: le_imp_less_Suc length_dropWhile_le dest: scan)
qed

subsection \<open>Values\<close>

text \<open>
  The grammar is read by a stack machine over the tokens: one frame per open array or
  object, with the position reached inside it.
\<close>

datatype apos = AStart | AValue | AComma

datatype opos = OStart | OKey jstring | OColon jstring | OValue | OComma

datatype frame = InArr "json list" apos | InObj "(jstring \<times> json) list" opos

type_synonym pstate = "frame list \<times> json option"

fun deliver :: "json \<Rightarrow> pstate \<Rightarrow> pstate option" where
  "deliver v ([], None) = Some ([], Some v)"
| "deliver v ([], Some r) = None"
| "deliver v (InArr xs p # fs, r) =
     (if p = AValue then None else Some (InArr (xs @ [v]) AValue # fs, r))"
| "deliver v (InObj kvs p # fs, r) =
     (case p of
        OColon k \<Rightarrow> Some (InObj (obj_put k v kvs) OValue # fs, r)
      | OStart \<Rightarrow> (case v of JStr k \<Rightarrow> Some (InObj kvs (OKey k) # fs, r) | _ \<Rightarrow> None)
      | OComma \<Rightarrow> (case v of JStr k \<Rightarrow> Some (InObj kvs (OKey k) # fs, r) | _ \<Rightarrow> None)
      | _ \<Rightarrow> None)"

fun step :: "token \<Rightarrow> pstate \<Rightarrow> pstate option" where
  "step (TScalar v) st = deliver v st"
| "step TLBrack (fs, r) = Some (InArr [] AStart # fs, r)"
| "step TLBrace (fs, r) = Some (InObj [] OStart # fs, r)"
| "step TRBrack (InArr xs p # fs, r) =
     (if p = AComma then None else deliver (JArr xs) (fs, r))"
| "step TRBrace (InObj kvs p # fs, r) =
     (if p = OStart \<or> p = OValue then deliver (JObj kvs) (fs, r) else None)"
| "step TComma (InArr xs p # fs, r) =
     (if p = AValue then Some (InArr xs AComma # fs, r) else None)"
| "step TComma (InObj kvs p # fs, r) =
     (if p = OValue then Some (InObj kvs OComma # fs, r) else None)"
| "step TColon (InObj kvs p # fs, r) =
     (case p of OKey k \<Rightarrow> Some (InObj kvs (OColon k) # fs, r) | _ \<Rightarrow> None)"
| "step _ _ = None"

fun run_tokens :: "token list \<Rightarrow> pstate \<Rightarrow> pstate option" where
  "run_tokens [] st = Some st"
| "run_tokens (t # ts) st =
     (case step t st of None \<Rightarrow> None | Some st' \<Rightarrow> run_tokens ts st')"

definition JSON_parse :: "jstring \<Rightarrow> thrown + json" where
  "JSON_parse text =
     (case tokens text of
        None \<Rightarrow> Inl SyntaxError
      | Some ts \<Rightarrow>
          (case run_tokens ts ([], None) of
             Some ([], Some v) \<Rightarrow> Inr v
           | _ \<Rightarrow> Inl SyntaxError))"

subsection \<open>Enumerating a parsed value\<close>

definition digits_val :: "jstring \<Rightarrow> int" where
  "digits_val ds = foldl (\<lambda>n c. 10 * n + (uint c - 0x30)) 0 ds"

fun decimal :: "nat \<Rightarrow> jstring" where
  "decimal n =
     (if n < 10 then [of_nat (0x30 + n)]
      else decimal (n div 10) @ [of_nat (0x30 + n mod 10)])"

text \<open>An array index is a canonical decimal numeral below \<open>2^32 - 1\<close>.\<close>

definition is_array_index :: "jstring \<Rightarrow> bool" where
  "is_array_index k =
     (k \<noteq> [] \<and> list_all is_digit k \<and> (k = js ''0'' \<or> hd k \<noteq> 0x30)
      \<and> digits_val k < 4294967295)"

definition indexed :: "json list \<Rightarrow> (jstring \<times> json) list" where
  "indexed xs = zip (map decimal [0..<length xs]) xs"

text \<open>
  \<open>Object.entries\<close>: the own enumerable properties, array indices first in ascending
  order, then the other keys in the order of their creation. \<open>null\<close> has none to
  give and throws; a number and a boolean have none; a string has its code units, an array
  its elements.
\<close>

definition Object_entries :: "json \<Rightarrow> thrown + (jstring \<times> json) list" where
  "Object_entries v =
     (case v of
        JNull \<Rightarrow> Inl TypeError
      | JBool b \<Rightarrow> Inr []
      | JNum n \<Rightarrow> Inr []
      | JStr s \<Rightarrow> Inr (indexed (map (\<lambda>c. JStr [c]) s))
      | JArr xs \<Rightarrow> Inr (indexed xs)
      | JObj kvs \<Rightarrow>
          Inr (sort_key (\<lambda>kv. digits_val (fst kv)) (filter (\<lambda>kv. is_array_index (fst kv)) kvs)
               @ filter (\<lambda>kv. \<not> is_array_index (fst kv)) kvs))"

definition Object_keys :: "json \<Rightarrow> thrown + jstring list" where
  "Object_keys v = (case Object_entries v of Inl e \<Rightarrow> Inl e | Inr es \<Rightarrow> Inr (map fst es))"

text \<open>
  Reading a property of a parsed value, for the three names the source reads
  (\<open>DataType\<close>, \<open>StringValue\<close>, \<open>BinaryValue\<close>: no prototype defines them). Only
  an object can hold one; \<open>None\<close> is \<open>undefined\<close>. Reading a property of
  \<open>null\<close> throws, which \<open>parse_entry\<close> below checks first.
\<close>

definition get :: "json \<Rightarrow> jstring \<Rightarrow> json option" where
  "get v name = (case v of JObj kvs \<Rightarrow> map_of kvs name | _ \<Rightarrow> None)"

section \<open>The runtime\<close>

subsection \<open>Numbers\<close>

text \<open>
  A number lexeme \<open>-?int(.frac)?([eE][+-]?exp)?\<close> read as sign, \<open>m\<close> and \<open>k\<close>: it
  denotes \<open>m * 10^k\<close>, negated when the sign is set.
\<close>

definition exponent_val :: "jstring \<Rightarrow> int" where
  "exponent_val e =
     (if e \<noteq> [] \<and> hd e = 0x2D then - digits_val (tl e)
      else if e \<noteq> [] \<and> hd e = 0x2B then digits_val (tl e)
      else digits_val e)"

definition number_parts :: "jstring \<Rightarrow> bool \<times> int \<times> int" where
  "number_parts lexeme =
     (let negative = (lexeme \<noteq> [] \<and> hd lexeme = 0x2D);
          body = (if negative then tl lexeme else lexeme);
          mantissa = takeWhile (\<lambda>c. c \<noteq> 0x65 \<and> c \<noteq> 0x45) body;
          integral = takeWhile is_digit mantissa;
          fraction = drop (Suc (length integral)) mantissa
      in (negative, digits_val (integral @ fraction),
          exponent_val (drop (Suc (length mantissa)) body) - int (length fraction)))"

text \<open>
  Whether the double that the lexeme denotes is zero. The value is rounded to the nearest
  double, ties to even: it becomes zero exactly when it is at most \<open>2^-1075\<close>, half the
  least positive double.
\<close>

definition Number_isZero :: "jstring \<Rightarrow> bool" where
  "Number_isZero lexeme =
     (case number_parts lexeme of
        (negative, m, k) \<Rightarrow> m = 0 \<or> (k < 0 \<and> m * 2 ^ 1075 \<le> 10 ^ nat (- k)))"

subsection \<open>What is taken as given\<close>

text \<open>
  Two parts of the runtime are parameters: how the double of a number lexeme prints, and
  what \<open>Buffer.from\<close> makes of an array or an object (bytes, or an exception).
\<close>

record platform =
  Number_toString :: "jstring \<Rightarrow> jstring"
  Buffer_fromObject :: "json \<Rightarrow> thrown + byte list"

text \<open>Truthiness of a property value (\<open>undefined\<close> is \<open>None\<close>).\<close>

definition truthy :: "json option \<Rightarrow> bool" where
  "truthy v =
     (case v of
        None \<Rightarrow> False
      | Some JNull \<Rightarrow> False
      | Some (JBool b) \<Rightarrow> b
      | Some (JNum n) \<Rightarrow> \<not> Number_isZero n
      | Some (JStr s) \<Rightarrow> s \<noteq> []
      | Some (JArr xs) \<Rightarrow> True
      | Some (JObj kvs) \<Rightarrow> True)"

definition join :: "jstring \<Rightarrow> jstring list \<Rightarrow> jstring" where
  "join sep xs = (case xs of [] \<Rightarrow> [] | y # ys \<Rightarrow> y @ concat (map (\<lambda>z. sep @ z) ys))"

fun those :: "'a option list \<Rightarrow> 'a list option" where
  "those [] = Some []"
| "those (None # xs) = None"
| "those (Some x # xs) = map_option (Cons x) (those xs)"

text \<open>
  \<open>String(v)\<close>, also what a template literal does to \<open>v\<close>; \<open>None\<close> where it
  throws a TypeError. An array joins its elements with commas, \<open>null\<close> elements as the
  empty string. An object prints as \<open>[object Object]\<close>, unless it has a member
  \<open>toString\<close>: that member hides the method, is not callable itself, and the
  conversion throws.
\<close>

fun ToString :: "platform \<Rightarrow> json \<Rightarrow> jstring option" where
  "ToString P JNull = Some (js ''null'')"
| "ToString P (JBool b) = Some (if b then js ''true'' else js ''false'')"
| "ToString P (JNum n) = Some (Number_toString P n)"
| "ToString P (JStr s) = Some s"
| "ToString P (JArr xs) =
     map_option (join (js '',''))
       (those (map (\<lambda>x. if x = JNull then Some [] else ToString P x) xs))"
| "ToString P (JObj kvs) =
     (if js ''toString'' \<in> fst ` set kvs then None else Some (js ''[object Object]''))"

subsection \<open>Base64\<close>

text \<open>
  \<open>Buffer.from(s, 'base64')\<close> on a string. The decoder reads each code unit by its low
  byte. It keeps the characters of the two base64 alphabets and passes over every other
  one, stops at the first \<open>=\<close>, and turns each four characters into three bytes; a
  last group of two or three characters gives one or two bytes. It never throws.
\<close>

definition low_byte :: "jschar \<Rightarrow> nat" where
  "low_byte c = unat c mod 256"

definition b64_val :: "nat \<Rightarrow> nat option" where
  "b64_val c =
     (if 0x41 \<le> c \<and> c \<le> 0x5A then Some (c - 0x41)
      else if 0x61 \<le> c \<and> c \<le> 0x7A then Some (c - 0x61 + 26)
      else if 0x30 \<le> c \<and> c \<le> 0x39 then Some (c - 0x30 + 52)
      else if c = 0x2B \<or> c = 0x2D then Some 62
      else if c = 0x2F \<or> c = 0x5F then Some 63
      else None)"

fun b64_groups :: "nat list \<Rightarrow> byte list" where
  "b64_groups (a # b # c # d # r) =
     [of_nat (a * 4 + b div 16), of_nat ((b mod 16) * 16 + c div 4), of_nat ((c mod 4) * 64 + d)]
     @ b64_groups r"
| "b64_groups [a, b, c] = [of_nat (a * 4 + b div 16), of_nat ((b mod 16) * 16 + c div 4)]"
| "b64_groups [a, b] = [of_nat (a * 4 + b div 16)]"
| "b64_groups _ = []"

definition sextets :: "jstring \<Rightarrow> nat list" where
  "sextets s = List.map_filter b64_val (takeWhile (\<lambda>c. c \<noteq> 0x3D) (map low_byte s))"

definition Buffer_base64 :: "jstring \<Rightarrow> byte list" where
  "Buffer_base64 s = b64_groups (sextets s)"

text \<open>\<open>Buffer.from(v, 'base64')\<close>: a string is decoded; \<open>null\<close>, a boolean and a number throw.\<close>

definition Buffer_from :: "platform \<Rightarrow> json \<Rightarrow> thrown + byte list" where
  "Buffer_from P v =
     (case v of
        JStr s \<Rightarrow> Inr (Buffer_base64 s)
      | JNull \<Rightarrow> Inl TypeError
      | JBool b \<Rightarrow> Inl TypeError
      | JNum n \<Rightarrow> Inl TypeError
      | _ \<Rightarrow> Buffer_fromObject P v)"



subsection \<open>A reference runtime\<close>

text \<open>
  A runtime to run examples on. For the two parameters it gives what Node gives on the
  common inputs and a stand-in elsewhere, which no example reaches.

  A number of at most 15 significant digits and of a magnitude between \<open>10^-300\<close> and
  \<open>10^300\<close> prints as \<open>Number::toString\<close> specifies: its significant digits are those
  of the shortest decimal that denotes the same double, written in positional notation
  when the decimal point falls between 6 places before the digits and 21 places in all,
  and with an exponent otherwise. Any other number prints as its lexeme, the stand-in.

  An array of integers, each written with at most 15 digits and no fraction or exponent,
  gives the bytes of its elements modulo 256. \<open>Buffer.from\<close> throws on an object that
  has none of the members \<open>valueOf\<close>, \<open>length\<close>, \<open>buffer\<close>, \<open>type\<close>; the
  reference runtime throws on every object and on every other array, the stand-in.
\<close>

function strip_zeros :: "int \<times> int \<Rightarrow> int \<times> int" where
  "strip_zeros (m, k) = (if m \<noteq> 0 \<and> m mod 10 = 0 then strip_zeros (m div 10, k + 1) else (m, k))"
  by pat_completeness auto
termination
  by (relation "measure (\<lambda>(m, k). nat \<bar>m\<bar>)") auto

definition print_digits :: "jstring \<Rightarrow> int \<Rightarrow> jstring" where
  "print_digits ds n =
     (let k = int (length ds) in
      if k \<le> n \<and> n \<le> 21 then ds @ replicate (nat (n - k)) 0x30
      else if 0 < n \<and> n \<le> 21 then take (nat n) ds @ js ''.'' @ drop (nat n) ds
      else if - 6 < n \<and> n \<le> 0 then js ''0.'' @ replicate (nat (- n)) 0x30 @ ds
      else (if k = 1 then ds else take 1 ds @ js ''.'' @ drop 1 ds)
           @ js ''e'' @ (if n - 1 < 0 then js ''-'' else js ''+'') @ decimal (nat \<bar>n - 1\<bar>))"

definition print_number :: "jstring \<Rightarrow> jstring" where
  "print_number lexeme =
     (case number_parts lexeme of
        (negative, m, k) \<Rightarrow>
          if m = 0 then js ''0''
          else
            (case strip_zeros (m, k) of
               (s, e) \<Rightarrow>
                 let ds = decimal (nat s); n = int (length ds) + e in
                 if length ds \<le> 15 \<and> - 300 \<le> n \<and> n \<le> 300
                 then (if negative then js ''-'' else []) @ print_digits ds n
                 else lexeme))"

definition small_integer :: "json \<Rightarrow> bool" where
  "small_integer v =
     (case v of
        JNum n \<Rightarrow>
          (let ds = (if n \<noteq> [] \<and> hd n = 0x2D then tl n else n)
           in ds \<noteq> [] \<and> length ds \<le> 15 \<and> list_all is_digit ds)
      | _ \<Rightarrow> False)"

definition integer_byte :: "json \<Rightarrow> byte" where
  "integer_byte v =
     (case v of
        JNum n \<Rightarrow> (case number_parts n of (negative, m, k) \<Rightarrow> of_int (if negative then - m else m))
      | _ \<Rightarrow> 0)"

definition node :: platform where
  "node = \<lparr> Number_toString = print_number,
             Buffer_fromObject =
               (\<lambda>v. case v of
                      JArr xs \<Rightarrow> if list_all small_integer xs then Inr (map integer_byte xs)
                                 else Inl TypeError
                    | _ \<Rightarrow> Inl TypeError) \<rparr>"

section \<open>Errors\<close>

text \<open>
  The source throws \<open>Error\<close> objects that differ in their message only. One constructor
  stands for each \<open>throw\<close> statement, with the values its message quotes.
\<close>

datatype error =
    InvalidQueueUrl jstring
  | BodyTooLarge nat
  | DelayOutOfRange int
  | GroupIdRequired
  | ParseFailed thrown
  | SendRejected jstring
  | InputRequired jstring
  | InvalidDelaySeconds jstring
  | SendFailed

section \<open>Message attributes\<close>

record MessageAttributeValue =
  DataType :: jstring
  StringValue :: "jstring option"
  BinaryValue :: "byte list option"

type_synonym attributes = "(jstring \<times> MessageAttributeValue) list"

definition validDataTypes :: "jstring list" where
  "validDataTypes = [js ''String'', js ''Number'', js ''Binary'']"

text \<open>The body of the loop over the entries, up to the assignment.\<close>

definition parse_entry :: "platform \<Rightarrow> jstring \<Rightarrow> json \<Rightarrow> thrown + MessageAttributeValue" where
  "parse_entry P key attr =
     (if attr = JNull then Inl TypeError
      else if \<not> truthy (get attr (js ''DataType'')) then Inl (MissingDataType key)
      else
        (case get attr (js ''DataType'') of
           Some (JStr dataType) \<Rightarrow>
             if dataType \<notin> set validDataTypes then Inl (InvalidDataType (JStr dataType) key)
             else if (dataType = js ''String'' \<or> dataType = js ''Number'')
                     \<and> get attr (js ''StringValue'') = None
               then Inl (MissingStringValue key dataType)
             else if \<not> (dataType = js ''String'' \<or> dataType = js ''Number'')
                     \<and> dataType = js ''Binary'' \<and> get attr (js ''BinaryValue'') = None
               then Inl (MissingBinaryValue key)
             else
               (let messageAttr = \<lparr> DataType = dataType, StringValue = None, BinaryValue = None \<rparr> in
                case (case get attr (js ''StringValue'') of
                        None \<Rightarrow> Inr messageAttr
                      | Some sv \<Rightarrow>
                          (case ToString P sv of
                             None \<Rightarrow> Inl TypeError
                           | Some text \<Rightarrow> Inr (messageAttr\<lparr>StringValue := Some text\<rparr>)))
                of
                  Inl e \<Rightarrow> Inl e
                | Inr messageAttr \<Rightarrow>
                    (case get attr (js ''BinaryValue'') of
                       None \<Rightarrow> Inr messageAttr
                     | Some bv \<Rightarrow>
                         (case Buffer_from P bv of
                            Inl e \<Rightarrow> Inl e
                          | Inr buffer \<Rightarrow> Inr (messageAttr\<lparr>BinaryValue := Some buffer\<rparr>))))
         | Some other \<Rightarrow>
             (case ToString P other of
                None \<Rightarrow> Inl TypeError
              | Some text \<Rightarrow> Inl (InvalidDataType other key))
         | None \<Rightarrow> Inl (MissingDataType key)))"

text \<open>
  \<open>attributes[key] = messageAttr\<close>. On the key \<open>__proto__\<close> the assignment sets the
  prototype of \<open>attributes\<close> and creates no property.
\<close>

definition assign :: "jstring \<Rightarrow> MessageAttributeValue \<Rightarrow> attributes \<Rightarrow> attributes" where
  "assign key messageAttr attrs =
     (if key = js ''__proto__'' then attrs else obj_put key messageAttr attrs)"

fun parse_entries :: "platform \<Rightarrow> attributes \<Rightarrow> (jstring \<times> json) list \<Rightarrow> thrown + attributes" where
  "parse_entries P attrs [] = Inr attrs"
| "parse_entries P attrs ((key, attr) # rest) =
     (case parse_entry P key attr of
        Inl e \<Rightarrow> Inl e
      | Inr messageAttr \<Rightarrow> parse_entries P (assign key messageAttr attrs) rest)"

text \<open>The \<open>try\<close> block of \<open>parseMessageAttributes\<close>, then the function with its \<open>catch\<close>.\<close>

definition parseMessageAttributes_try :: "platform \<Rightarrow> jstring \<Rightarrow> thrown + attributes" where
  "parseMessageAttributes_try P attributesJson =
     (case JSON_parse attributesJson of
        Inl e \<Rightarrow> Inl e
      | Inr parsed \<Rightarrow>
          (case Object_keys parsed of
             Inl e \<Rightarrow> Inl e
           | Inr attributeKeys \<Rightarrow>
               if length attributeKeys > 10 then Inl (TooManyAttributes (length attributeKeys))
               else
                 (case Object_entries parsed of
                    Inl e \<Rightarrow> Inl e
                  | Inr entries \<Rightarrow> parse_entries P [] entries)))"

definition parseMessageAttributes :: "platform \<Rightarrow> jstring \<Rightarrow> error + attributes" where
  "parseMessageAttributes P attributesJson =
     (case parseMessageAttributes_try P attributesJson of
        Inl e \<Rightarrow> Inl (ParseFailed e)
      | Inr attrs \<Rightarrow> Inr attrs)"

definition parseSystemAttributes :: "platform \<Rightarrow> jstring \<Rightarrow> error + attributes" where
  "parseSystemAttributes P attributesJson = parseMessageAttributes P attributesJson"

section \<open>Request, response and events\<close>

record SendMessageCommandInput =
  QueueUrl :: jstring
  MessageBody :: jstring
  DelaySeconds :: "int option"
  MessageAttributes :: "attributes option"
  MessageSystemAttributes :: "attributes option"
  MessageGroupId :: "jstring option"
  MessageDeduplicationId :: "jstring option"

record SendMessageCommandOutput =
  MessageId :: "jstring option"
  SequenceNumber :: "jstring option"
  MD5OfMessageBody :: "jstring option"
  MD5OfMessageAttributes :: "jstring option"

text \<open>
  The client is what \<open>client.send\<close> answers to a request: the promise is fulfilled
  with a response, or rejected with an error of some message.
\<close>

datatype send_outcome = Fulfilled SendMessageCommandOutput | Rejected jstring

type_synonym client = "SendMessageCommandInput \<Rightarrow> send_outcome"

text \<open>
  What a run does to the outside, in order: the lines it logs through \<open>core\<close>, the
  request it hands to the client, the outputs it sets.
\<close>

datatype info =
    SendingTo jstring
  | BodySizeLine nat
  | DelayLine int
  | MessageAttributesLine nat
  | SystemAttributesLine nat
  | GroupIdLine jstring
  | DeduplicationIdLine jstring
  | SentLine
  | MessageIdLine jstring
  | SequenceNumberLine jstring
  | Banner
  | QueueUrlLine jstring
  | BlankLine
  | RuleLine
  | SummaryLine

datatype event =
    Info info
  | Warning
  | ErrorLine error
  | Send SendMessageCommandInput
  | SetOutput jstring jstring
  | SetFailed error

text \<open>
  A computation that logs events and then returns or throws. \<open>bind\<close> runs the second
  one after the first unless the first threw.
\<close>

type_synonym 'a action = "event list \<times> (error + 'a)"

definition ret :: "'a \<Rightarrow> 'a action" where
  "ret x = ([], Inr x)"

definition emit :: "event \<Rightarrow> unit action" where
  "emit ev = ([ev], Inr ())"

definition lift :: "error + 'a \<Rightarrow> 'a action" where
  "lift r = ([], r)"

definition bind :: "'a action \<Rightarrow> ('a \<Rightarrow> 'b action) \<Rightarrow> 'b action" where
  "bind m f =
     (case m of
        (log, Inl e) \<Rightarrow> (log, Inl e)
      | (log, Inr x) \<Rightarrow> (case f x of (log', r) \<Rightarrow> (log @ log', r)))"

text \<open>Truthiness of an optional string: \<open>undefined\<close> and the empty string are falsy.\<close>

definition given :: "jstring option \<Rightarrow> bool" where
  "given s = (case s of None \<Rightarrow> False | Some t \<Rightarrow> t \<noteq> [])"

section \<open>Validation\<close>

text \<open>\<open>/^https:\/\/sqs\.[a-z0-9-]+\.amazonaws\.com(\.cn)?\/\d+\/.+$/\<close>\<close>

definition urlPattern :: rx where
  "urlPattern =
     RSeq (RLit (js ''https://sqs.''))
    (RSeq (RPlus (RSym is_region_char))
    (RSeq (RLit (js ''.amazonaws.com''))
    (RSeq (ROpt (RLit (js ''.cn'')))
    (RSeq (RLit (js ''/''))
    (RSeq (RPlus (RSym is_digit))
    (RSeq (RLit (js ''/''))
          (RPlus (RSym is_dot))))))))"

definition validateQueueUrl :: "jstring \<Rightarrow> error + unit" where
  "validateQueueUrl queueUrl =
     (if \<not> rx_test urlPattern queueUrl then Inl (InvalidQueueUrl queueUrl) else Inr ())"

definition validateMessageBody :: "jstring \<Rightarrow> error + unit" where
  "validateMessageBody messageBody =
     (let sizeInBytes = byteLength_utf8 messageBody;
          maxSizeBytes = 256 * 1024
      in if sizeInBytes > maxSizeBytes then Inl (BodyTooLarge sizeInBytes) else Inr ())"

text \<open>
  The delay is an integer, as in the specification's data model and as \<open>parseInt\<close>
  hands it to \<open>sendMessage\<close>; \<open>None\<close> is \<open>undefined\<close>.
\<close>

definition validateDelaySeconds :: "int option \<Rightarrow> error + unit" where
  "validateDelaySeconds delaySeconds =
     (case delaySeconds of
        None \<Rightarrow> Inr ()
      | Some d \<Rightarrow> if d < 0 \<or> d > 900 then Inl (DelayOutOfRange d) else Inr ())"

definition validateFifoQueue :: "jstring \<Rightarrow> jstring option \<Rightarrow> unit action" where
  "validateFifoQueue queueUrl messageGroupId =
     (let isFifo = endsWith queueUrl (js ''.fifo'') in
      if isFifo \<and> \<not> given messageGroupId then lift (Inl GroupIdRequired)
      else if \<not> isFifo \<and> given messageGroupId then emit Warning
      else ret ())"

section \<open>Sending\<close>

record MessageConfig =
  queueUrl :: jstring
  messageBody :: jstring
  messageAttributes :: "jstring option"
  delaySeconds :: "int option"
  messageGroupId :: "jstring option"
  messageDeduplicationId :: "jstring option"
  systemAttributes :: "jstring option"

record MessageResult =
  success :: bool
  messageId :: "jstring option"
  sequenceNumber :: "jstring option"
  md5OfBody :: "jstring option"
  md5OfAttributes :: "jstring option"
  error :: "error option"

text \<open>
  \<open>sendMessage\<close>, its \<open>try\<close> block cut at the comments of the source: the four
  validations, then the command input and each optional parameter added to it. The
  requests handed to the client are read off the log by \<open>submitted\<close>.
\<close>

fun submitted :: "event list \<Rightarrow> SendMessageCommandInput list" where
  "submitted [] = []"
| "submitted (Send input # evs) = input # submitted evs"
| "submitted (ev # evs) = submitted evs"

definition validateInputs :: "MessageConfig \<Rightarrow> unit action" where
  "validateInputs config =
     bind (lift (validateQueueUrl (queueUrl config))) (\<lambda>_.
     bind (lift (validateMessageBody (messageBody config))) (\<lambda>_.
     bind (lift (validateDelaySeconds (delaySeconds config))) (\<lambda>_.
     validateFifoQueue (queueUrl config) (messageGroupId config))))"

definition newInput :: "MessageConfig \<Rightarrow> SendMessageCommandInput" where
  "newInput config =
     \<lparr> QueueUrl = queueUrl config, MessageBody = messageBody config,
       DelaySeconds = None, MessageAttributes = None, MessageSystemAttributes = None,
       MessageGroupId = None, MessageDeduplicationId = None \<rparr>"

definition addDelaySeconds ::
  "MessageConfig \<Rightarrow> SendMessageCommandInput \<Rightarrow> SendMessageCommandInput action" where
  "addDelaySeconds config input =
     (case delaySeconds config of
        None \<Rightarrow> ret input
      | Some d \<Rightarrow>
          if d > 0
          then bind (emit (Info (DelayLine d))) (\<lambda>_. ret (input\<lparr>DelaySeconds := Some d\<rparr>))
          else ret input)"

definition addMessageAttributes ::
  "platform \<Rightarrow> MessageConfig \<Rightarrow> SendMessageCommandInput \<Rightarrow> SendMessageCommandInput action" where
  "addMessageAttributes P config input =
     (case messageAttributes config of
        None \<Rightarrow> ret input
      | Some text \<Rightarrow>
          if text \<noteq> []
          then bind (lift (parseMessageAttributes P text)) (\<lambda>attrs.
               bind (emit (Info (MessageAttributesLine (length attrs)))) (\<lambda>_.
               ret (input\<lparr>MessageAttributes := Some attrs\<rparr>)))
          else ret input)"

definition addSystemAttributes ::
  "platform \<Rightarrow> MessageConfig \<Rightarrow> SendMessageCommandInput \<Rightarrow> SendMessageCommandInput action" where
  "addSystemAttributes P config input =
     (case systemAttributes config of
        None \<Rightarrow> ret input
      | Some text \<Rightarrow>
          if text \<noteq> []
          then bind (lift (parseSystemAttributes P text)) (\<lambda>attrs.
               bind (emit (Info (SystemAttributesLine (length attrs)))) (\<lambda>_.
               ret (input\<lparr>MessageSystemAttributes := Some attrs\<rparr>)))
          else ret input)"

definition addGroupId ::
  "MessageConfig \<Rightarrow> SendMessageCommandInput \<Rightarrow> SendMessageCommandInput action" where
  "addGroupId config input =
     (case messageGroupId config of
        None \<Rightarrow> ret input
      | Some g \<Rightarrow>
          if g \<noteq> []
          then bind (emit (Info (GroupIdLine g))) (\<lambda>_. ret (input\<lparr>MessageGroupId := Some g\<rparr>))
          else ret input)"

definition addDeduplicationId ::
  "MessageConfig \<Rightarrow> SendMessageCommandInput \<Rightarrow> SendMessageCommandInput action" where
  "addDeduplicationId config input =
     (case messageDeduplicationId config of
        None \<Rightarrow> ret input
      | Some d \<Rightarrow>
          if d \<noteq> []
          then bind (emit (Info (DeduplicationIdLine d))) (\<lambda>_.
               ret (input\<lparr>MessageDeduplicationId := Some d\<rparr>))
          else ret input)"

definition buildInput :: "platform \<Rightarrow> MessageConfig \<Rightarrow> SendMessageCommandInput action" where
  "buildInput P config =
     bind (validateInputs config) (\<lambda>_.
     bind (emit (Info (SendingTo (queueUrl config)))) (\<lambda>_.
     bind (emit (Info (BodySizeLine (byteLength_utf8 (messageBody config))))) (\<lambda>_.
     bind (addDelaySeconds config (newInput config)) (\<lambda>input.
     bind (addMessageAttributes P config input) (\<lambda>input.
     bind (addSystemAttributes P config input) (\<lambda>input.
     bind (addGroupId config input) (\<lambda>input.
     addDeduplicationId config input)))))))"

definition send :: "client \<Rightarrow> SendMessageCommandInput \<Rightarrow> SendMessageCommandOutput action" where
  "send client input =
     bind (emit (Send input)) (\<lambda>_.
     case client input of
       Fulfilled response \<Rightarrow> ret response
     | Rejected message \<Rightarrow> lift (Inl (SendRejected message)))"

definition sendMessage_try :: "platform \<Rightarrow> client \<Rightarrow> MessageConfig \<Rightarrow> MessageResult action" where
  "sendMessage_try P client config =
     bind (buildInput P config) (\<lambda>input.
     bind (send client input) (\<lambda>response.
     bind (emit (Info SentLine)) (\<lambda>_.
     bind (if given (MessageId response)
           then emit (Info (MessageIdLine (the (MessageId response)))) else ret ()) (\<lambda>_.
     bind (if given (SequenceNumber response)
           then emit (Info (SequenceNumberLine (the (SequenceNumber response)))) else ret ()) (\<lambda>_.
     ret \<lparr> success = True,
           messageId = MessageId response,
           sequenceNumber = SequenceNumber response,
           md5OfBody = MD5OfMessageBody response,
           md5OfAttributes = MD5OfMessageAttributes response,
           error = None \<rparr>)))))"

definition sendMessage :: "platform \<Rightarrow> client \<Rightarrow> MessageConfig \<Rightarrow> event list \<times> MessageResult" where
  "sendMessage P client config =
     (case sendMessage_try P client config of
        (log, Inr result) \<Rightarrow> (log, result)
      | (log, Inl errorMessage) \<Rightarrow>
          (log @ [ErrorLine errorMessage],
           \<lparr> success = False, messageId = None, sequenceNumber = None, md5OfBody = None,
             md5OfAttributes = None, error = Some errorMessage \<rparr>))"

section \<open>The action's entry point\<close>

text \<open>
  The double nearest to a non-negative integer, ties to even: the integer itself when it
  has at most 53 bits.
\<close>

function bits :: "int \<Rightarrow> nat" where
  "bits n = (if n \<le> 0 then 0 else Suc (bits (n div 2)))"
  by pat_completeness auto
termination
  by (relation "measure nat") auto

definition to_double :: "int \<Rightarrow> int" where
  "to_double n =
     (if bits n \<le> 53 then n
      else
        (let unit = 2 ^ (bits n - 53); q = n div unit; r = n mod unit
         in if 2 * r > unit \<or> (2 * r = unit \<and> odd q) then (q + 1) * unit else q * unit))"

text \<open>
  \<open>parseInt(s, 10)\<close>: leading white space is skipped, then an optional sign, then the
  longest run of decimal digits is read and what follows it is ignored; \<open>None\<close> is
  \<open>NaN\<close>, the result when there is no digit. The value is the double nearest to the
  integer that the digits denote. (Beyond the largest double, near \<open>1.8 * 10^308\<close>,
  the runtime gives \<open>Infinity\<close>, which an integer does not hold: there the value here is
  a finite one, that compares with 0 and 900 as \<open>Infinity\<close> does.)
\<close>

definition is_str_ws :: "jschar \<Rightarrow> bool" where
  "is_str_ws c =
     ((0x09 \<le> c \<and> c \<le> 0x0D) \<or> c = 0x20 \<or> c = 0xA0 \<or> c = 0x1680
      \<or> (0x2000 \<le> c \<and> c \<le> 0x200A) \<or> c = 0x2028 \<or> c = 0x2029 \<or> c = 0x202F
      \<or> c = 0x205F \<or> c = 0x3000 \<or> c = 0xFEFF)"

definition parseInt10 :: "jstring \<Rightarrow> int option" where
  "parseInt10 s =
     (let t = dropWhile is_str_ws s;
          negative = (t \<noteq> [] \<and> hd t = 0x2D);
          u = (if t \<noteq> [] \<and> (hd t = 0x2D \<or> hd t = 0x2B) then tl t else t);
          digits = takeWhile is_digit u
      in if digits = [] then None
         else Some (if negative then - to_double (digits_val digits)
                    else to_double (digits_val digits)))"

text \<open>\<open>String.prototype.trim\<close>.\<close>

definition trim :: "jstring \<Rightarrow> jstring" where
  "trim s = rev (dropWhile is_str_ws (rev (dropWhile is_str_ws s)))"

text \<open>
  \<open>core.getInput\<close>. The function \<open>inputs\<close> gives the text of each input as it was
  set, empty when it was not. \<open>getInput\<close> returns it trimmed; for a required input it
  throws when the text as set is empty.
\<close>

definition getInput :: "(jstring \<Rightarrow> jstring) \<Rightarrow> jstring \<Rightarrow> jstring" where
  "getInput inputs name = trim (inputs name)"

definition getInput_required :: "(jstring \<Rightarrow> jstring) \<Rightarrow> jstring \<Rightarrow> jstring action" where
  "getInput_required inputs name =
     (if inputs name = [] then lift (Inl (InputRequired name)) else ret (trim (inputs name)))"

definition or_undefined :: "jstring \<Rightarrow> jstring option" where
  "or_undefined s = (if s = [] then None else Some s)"

definition set_output :: "jstring \<Rightarrow> jstring option \<Rightarrow> unit action" where
  "set_output name v = (if given v then emit (SetOutput name (the v)) else ret ())"

definition run_try :: "platform \<Rightarrow> (jstring \<Rightarrow> jstring) \<Rightarrow> client \<Rightarrow> unit action" where
  "run_try P inputs client =
     bind (getInput_required inputs (js ''queue-url'')) (\<lambda>queueUrl.
     bind (getInput_required inputs (js ''message-body'')) (\<lambda>messageBody.
     let messageAttributes = or_undefined (getInput inputs (js ''message-attributes''));
         delaySecondsStr =
           (if getInput inputs (js ''delay-seconds'') = [] then js ''0''
            else getInput inputs (js ''delay-seconds''));
         messageGroupId = or_undefined (getInput inputs (js ''message-group-id''));
         messageDeduplicationId = or_undefined (getInput inputs (js ''message-deduplication-id''));
         systemAttributes = or_undefined (getInput inputs (js ''system-attributes''))
     in
     bind (emit (Info Banner)) (\<lambda>_.
     bind (emit (Info (QueueUrlLine queueUrl))) (\<lambda>_.
     bind (case parseInt10 delaySecondsStr of
             None \<Rightarrow> lift (Inl (InvalidDelaySeconds delaySecondsStr))
           | Some n \<Rightarrow> ret n) (\<lambda>delaySeconds.
     let config = \<lparr> queueUrl = queueUrl, messageBody = messageBody,
                     messageAttributes = messageAttributes,
                     delaySeconds = Some delaySeconds,
                     messageGroupId = messageGroupId,
                     messageDeduplicationId = messageDeduplicationId,
                     systemAttributes = systemAttributes \<rparr>
     in
     bind (case sendMessage P client config of (log, result) \<Rightarrow> (log, Inr result)) (\<lambda>result.
     bind (if \<not> success result
           then lift (Inl (case error result of
                             None \<Rightarrow> SendFailed
                           | Some (SendRejected []) \<Rightarrow> SendFailed
                           | Some e \<Rightarrow> e))
           else ret ()) (\<lambda>_.
     bind (set_output (js ''message-id'') (messageId result)) (\<lambda>_.
     bind (set_output (js ''sequence-number'') (sequenceNumber result)) (\<lambda>_.
     bind (set_output (js ''md5-of-body'') (md5OfBody result)) (\<lambda>_.
     bind (set_output (js ''md5-of-attributes'') (md5OfAttributes result)) (\<lambda>_.
     bind (emit (Info BlankLine)) (\<lambda>_.
     bind (emit (Info RuleLine)) (\<lambda>_.
     bind (emit (Info SummaryLine)) (\<lambda>_.
     bind (if given (messageId result)
           then emit (Info (MessageIdLine (the (messageId result)))) else ret ()) (\<lambda>_.
     bind (if given (sequenceNumber result)
           then emit (Info (SequenceNumberLine (the (sequenceNumber result)))) else ret ()) (\<lambda>_.
     emit (Info RuleLine)))))))))))))))))"

definition run :: "platform \<Rightarrow> (jstring \<Rightarrow> jstring) \<Rightarrow> client \<Rightarrow> event list" where
  "run P inputs client =
     (case run_try P inputs client of
        (log, Inr _) \<Rightarrow> log
      | (log, Inl errorMessage) \<Rightarrow> log @ [SetFailed errorMessage])"

section \<open>The rules in the words of the specification\<close>

text \<open>
  The six rules in the order the specification gives them (URL format, body size, delay
  range, FIFO requirement, message-attribute schema, system-attribute schema). Each is
  stated here on its own, in the words of the specification and not through the function
  of the source that checks it: whether the configuration violates it and, if so, the
  error to report. Where C1, C2 and C3 amend what a rule admits (a slash in the queue
  name, a text that parses to a number, any string as a \<open>BinaryValue\<close>), the
  rule is stated as amended. \<open>first_violation\<close> is the first rule violated in
  that order.
\<close>

fun first_some :: "'a option list \<Rightarrow> 'a option" where
  "first_some [] = None"
| "first_some (None # rs) = first_some rs"
| "first_some (Some e # rs) = Some e"

text \<open>
  URL format: \<open>https://sqs.<region>.amazonaws.com[.cn]/<account>/<name>\<close>, the region
  of lowercase letters, digits and hyphens, the account of digits, the name of any
  characters but line terminators, none of the three empty.
\<close>

definition url_violation :: "jstring \<Rightarrow> error option" where
  "url_violation url =
     (if \<exists>region cn account name.
           url = js ''https://sqs.'' @ region @ js ''.amazonaws.com'' @ cn @ js ''/''
                 @ account @ js ''/'' @ name
           \<and> region \<noteq> [] \<and> (\<forall>c\<in>set region. is_region_char c)
           \<and> (cn = [] \<or> cn = js ''.cn'')
           \<and> account \<noteq> [] \<and> (\<forall>c\<in>set account. is_digit c)
           \<and> name \<noteq> [] \<and> (\<forall>c\<in>set name. \<not> is_line_terminator c)
      then None else Some (InvalidQueueUrl url))"

text \<open>Body size: at most 262144 bytes in UTF-8.\<close>

definition body_violation :: "jstring \<Rightarrow> error option" where
  "body_violation body =
     (if byteLength_utf8 body \<le> 262144 then None else Some (BodyTooLarge (byteLength_utf8 body)))"

text \<open>Delay range: a delay that is present is between 0 and 900.\<close>

definition delay_violation :: "int option \<Rightarrow> error option" where
  "delay_violation delay =
     (case delay of
        None \<Rightarrow> None
      | Some d \<Rightarrow> if 0 \<le> d \<and> d \<le> 900 then None else Some (DelayOutOfRange d))"

text \<open>FIFO requirement: a queue URL that ends in \<open>.fifo\<close> comes with a group ID.\<close>

definition fifo_violation :: "jstring \<Rightarrow> jstring option \<Rightarrow> error option" where
  "fifo_violation url groupId =
     (if (\<exists>queue. url = queue @ js ''.fifo'') \<and> \<not> given groupId
      then Some GroupIdRequired else None)"

text \<open>
  Attribute schema. The text is well-formed JSON and not \<open>null\<close>, and has at most 10
  entries. The value of each entry is an object with a \<open>DataType\<close> that is one of
  \<open>String\<close>, \<open>Number\<close>, \<open>Binary\<close>: a value that is not an object has no
  \<open>DataType\<close>, and neither has an object whose \<open>DataType\<close> is falsy. With
  \<open>String\<close> or \<open>Number\<close> the object has a \<open>StringValue\<close>, with \<open>Binary\<close> a
  \<open>BinaryValue\<close>. And the payloads convert: a \<open>StringValue\<close> to text, a
  \<open>BinaryValue\<close> to bytes.
\<close>

definition conversion_violation :: "platform \<Rightarrow> (jstring \<times> json) list \<Rightarrow> thrown option" where
  "conversion_violation P members =
     first_some
       [case map_of members (js ''StringValue'') of
          None \<Rightarrow> None
        | Some sv \<Rightarrow> (case ToString P sv of None \<Rightarrow> Some TypeError | Some t \<Rightarrow> None),
        case map_of members (js ''BinaryValue'') of
          None \<Rightarrow> None
        | Some bv \<Rightarrow> (case Buffer_from P bv of Inl e \<Rightarrow> Some e | Inr bytes \<Rightarrow> None)]"

fun entry_violation :: "platform \<Rightarrow> jstring \<Rightarrow> json \<Rightarrow> thrown option" where
  "entry_violation P key JNull = Some TypeError"
| "entry_violation P key (JObj members) =
     (case map_of members (js ''DataType'') of
        None \<Rightarrow> Some (MissingDataType key)
      | Some (JStr d) \<Rightarrow>
          if d = [] then Some (MissingDataType key)
          else if d = js ''String'' \<or> d = js ''Number'' then
            (if map_of members (js ''StringValue'') = None then Some (MissingStringValue key d)
             else conversion_violation P members)
          else if d = js ''Binary'' then
            (if map_of members (js ''BinaryValue'') = None then Some (MissingBinaryValue key)
             else conversion_violation P members)
          else Some (InvalidDataType (JStr d) key)
      | Some other \<Rightarrow>
          if \<not> truthy (Some other) then Some (MissingDataType key)
          else if ToString P other = None then Some TypeError
          else Some (InvalidDataType other key))"
| "entry_violation P key other = Some (MissingDataType key)"

definition schema_violation :: "platform \<Rightarrow> jstring \<Rightarrow> thrown option" where
  "schema_violation P text =
     (case JSON_parse text of
        Inl e \<Rightarrow> Some e
      | Inr JNull \<Rightarrow> Some TypeError
      | Inr parsed \<Rightarrow>
          (case Object_entries parsed of
             Inl e \<Rightarrow> Some e
           | Inr entries \<Rightarrow>
               if length entries > 10 then Some (TooManyAttributes (length entries))
               else first_some (map (\<lambda>entry. entry_violation P (fst entry) (snd entry)) entries)))"

definition attributes_violation :: "platform \<Rightarrow> jstring option \<Rightarrow> error option" where
  "attributes_violation P text =
     (if given text then map_option ParseFailed (schema_violation P (the text)) else None)"

definition rules :: "platform \<Rightarrow> MessageConfig \<Rightarrow> error option list" where
  "rules P config =
     [url_violation (queueUrl config),
      body_violation (messageBody config),
      delay_violation (delaySeconds config),
      fifo_violation (queueUrl config) (messageGroupId config),
      attributes_violation P (messageAttributes config),
      attributes_violation P (systemAttributes config)]"

definition first_violation :: "platform \<Rightarrow> MessageConfig \<Rightarrow> error option" where
  "first_violation P config = first_some (rules P config)"

text \<open>
  What a validator of the source says: the error it throws, if it throws.
  \<open>failure e\<close> is the result that reports \<open>e\<close> and nothing else.
\<close>

definition violation :: "'e + 'a \<Rightarrow> 'e option" where
  "violation r = (case r of Inl e \<Rightarrow> Some e | Inr _ \<Rightarrow> None)"

definition failure :: "error \<Rightarrow> MessageResult" where
  "failure e = \<lparr> success = False, messageId = None, sequenceNumber = None, md5OfBody = None,
             md5OfAttributes = None, error = Some e \<rparr>"

text \<open>The request that \<open>buildInput\<close> returns when no rule is violated.\<close>

definition builtInput :: "platform \<Rightarrow> MessageConfig \<Rightarrow> SendMessageCommandInput" where
  "builtInput P config =
     \<lparr> QueueUrl = queueUrl config,
       MessageBody = messageBody config,
       DelaySeconds = (if delaySeconds config = Some 0 then None else delaySeconds config),
       MessageAttributes =
         (if given (messageAttributes config)
          then (case parseMessageAttributes P (the (messageAttributes config)) of
                  Inl e \<Rightarrow> None | Inr attrs \<Rightarrow> Some attrs)
          else None),
       MessageSystemAttributes =
         (if given (systemAttributes config)
          then (case parseSystemAttributes P (the (systemAttributes config)) of
                  Inl e \<Rightarrow> None | Inr attrs \<Rightarrow> Some attrs)
          else None),
       MessageGroupId = (if given (messageGroupId config) then messageGroupId config else None),
       MessageDeduplicationId =
         (if given (messageDeduplicationId config) then messageDeduplicationId config else None) \<rparr>"

text \<open>The result that reports a response of the client.\<close>

definition succeeded :: "SendMessageCommandOutput \<Rightarrow> MessageResult" where
  "succeeded response =
     \<lparr> success = True, messageId = MessageId response,
       sequenceNumber = SequenceNumber response, md5OfBody = MD5OfMessageBody response,
       md5OfAttributes = MD5OfMessageAttributes response, error = None \<rparr>"

section \<open>Example configurations\<close>

definition plain :: MessageConfig where
  "plain = \<lparr> queueUrl = js ''https://sqs.us-east-1.amazonaws.com/123456789012/q'',
             messageBody = js ''hi'', messageAttributes = None, delaySeconds = Some 0,
             messageGroupId = None, messageDeduplicationId = None, systemAttributes = None \<rparr>"

text \<open>The inputs of a run: a queue URL, a body and the text of the delay.\<close>

definition example_inputs :: "jstring \<Rightarrow> jstring \<Rightarrow> jstring" where
  "example_inputs delay name =
     (if name = js ''queue-url'' then js ''https://sqs.us-east-1.amazonaws.com/123456789012/q''
      else if name = js ''message-body'' then js ''hi''
      else if name = js ''delay-seconds'' then delay
      else [])"

section \<open>What the matcher decides\<close>

lemma nullable_iff: "nullable r \<longleftrightarrow> [] \<in> lang r"
  by (induction r) (auto intro: star.intros)

lemma star_cons_iff:
  "c # w \<in> star A \<longleftrightarrow> (\<exists>u v. c # u \<in> A \<and> v \<in> star A \<and> w = u @ v)"
proof
  assume "c # w \<in> star A"
  then show "(\<exists>u v. c # u \<in> A \<and> v \<in> star A \<and> w = u @ v)"
  proof (induction "c # w" rule: star.induct)
    case (star_app u v)
    then show ?case
      by (cases u) auto
  qed
next
  assume "(\<exists>u v. c # u \<in> A \<and> v \<in> star A \<and> w = u @ v)"
  then obtain u v where "c # u \<in> A" "v \<in> star A" "w = u @ v" by blast
  then show "c # w \<in> star A"
    using star.star_app [of "c # u" A v] by simp
qed

lemma lang_deriv: "lang (deriv c r) = {w. c # w \<in> lang r}"
proof (induction r)
  case (RSeq r s)
  show ?case
  proof (cases "nullable r")
    case True
    then have "[] \<in> lang r" by (simp add: nullable_iff)
    then show ?thesis
      using RSeq True by (auto simp: Cons_eq_append_conv)
  next
    case False
    then have "[] \<notin> lang r" by (simp add: nullable_iff)
    then show ?thesis
      using RSeq False by (auto simp: Cons_eq_append_conv)
  qed
next
  case (RStar r)
  then show ?case
    by (auto simp: star_cons_iff)
qed auto

lemma rx_test_iff: "rx_test r s \<longleftrightarrow> s \<in> lang r"
  by (induction s arbitrary: r) (auto simp: nullable_iff lang_deriv)

lemma lang_RLit: "lang (RLit s) = {s}"
  by (induction s) auto

lemma star_syms: "star {[c] | c. p c} = {w. \<forall>c\<in>set w. p c}"
proof (rule set_eqI, rule iffI)
  fix w assume "w \<in> star {[c] | c. p c}"
  then show "w \<in> {w. \<forall>c\<in>set w. p c}"
    by (induction rule: star.induct) auto
next
  fix w assume "w \<in> {w. \<forall>c\<in>set w. p c}"
  then show "w \<in> star {[c] | c. p c}"
  proof (induction w)
    case Nil
    then show ?case by (simp add: star.star_nil)
  next
    case (Cons a w)
    then have "[a] \<in> {[c] | c. p c}" "w \<in> star {[c] | c. p c}" by auto
    then show ?case
      using star.star_app [of "[a]" _ w] by simp
  qed
qed

lemma lang_RPlus_RSym: "lang (RPlus (RSym p)) = {w. w \<noteq> [] \<and> (\<forall>c\<in>set w. p c)}"
proof (rule set_eqI)
  fix w
  show "w \<in> lang (RPlus (RSym p)) \<longleftrightarrow> w \<in> {w. w \<noteq> [] \<and> (\<forall>c\<in>set w. p c)}"
  proof (cases w)
    case Nil
    then show ?thesis by (simp add: RPlus_def)
  next
    case (Cons a v)
    have "(\<exists>u t. a # v = u @ t \<and> (\<exists>c. u = [c] \<and> p c) \<and> (\<forall>x\<in>set t. p x))
          \<longleftrightarrow> p a \<and> (\<forall>x\<in>set v. p x)"
    proof
      assume "\<exists>u t. a # v = u @ t \<and> (\<exists>c. u = [c] \<and> p c) \<and> (\<forall>x\<in>set t. p x)"
      then show "p a \<and> (\<forall>x\<in>set v. p x)" by auto
    next
      assume "p a \<and> (\<forall>x\<in>set v. p x)"
      then have "a # v = [a] @ v \<and> (\<exists>c. [a] = [c] \<and> p c) \<and> (\<forall>x\<in>set v. p x)" by simp
      then show "\<exists>u t. a # v = u @ t \<and> (\<exists>c. u = [c] \<and> p c) \<and> (\<forall>x\<in>set t. p x)" by blast
    qed
    then show ?thesis
      using Cons by (simp add: RPlus_def star_syms)
  qed
qed

lemma lang_ROpt: "lang (ROpt r) = insert [] (lang r)"
  by (auto simp: ROpt_def)

lemma lang_urlPattern:
  "lang urlPattern =
     {js ''https://sqs.'' @ region @ js ''.amazonaws.com'' @ cn @ js ''/'' @ account @ js ''/'' @ name
      | region cn account name.
        region \<noteq> [] \<and> (\<forall>c\<in>set region. is_region_char c) \<and> (cn = [] \<or> cn = js ''.cn'')
        \<and> account \<noteq> [] \<and> (\<forall>c\<in>set account. is_digit c)
        \<and> name \<noteq> [] \<and> (\<forall>c\<in>set name. \<not> is_line_terminator c)}"
  unfolding urlPattern_def
  apply (simp only: lang.simps(4) lang_RLit lang_RPlus_RSym lang_ROpt is_dot_def)
  apply (rule set_eqI)
  apply (rule iffI)
   apply clarsimp
   apply (metis append_Nil)
  apply clarsimp
  apply blast
  done

section \<open>The queue URL\<close>

lemma validateQueueUrl_lang:
  "validateQueueUrl url = (if url \<in> lang urlPattern then Inr () else Inl (InvalidQueueUrl url))"
  by (simp add: validateQueueUrl_def rx_test_iff)

text \<open>
  C3, as amended. \<open>validateQueueUrl\<close> succeeds exactly on the URLs
  \<open>https://sqs.<region>.amazonaws.com[.cn]/<account>/<name>\<close> where the region is a
  non-empty run of lowercase letters, digits and hyphens, the account a non-empty run of
  digits, and the name a non-empty run of code units other than the line terminators:
  a slash is allowed in the name. Every other URL fails, with the error that quotes it.
\<close>

theorem validateQueueUrl_pattern:
  "validateQueueUrl url =
     (if \<exists>region cn account name.
           url = js ''https://sqs.'' @ region @ js ''.amazonaws.com'' @ cn @ js ''/''
                 @ account @ js ''/'' @ name
           \<and> region \<noteq> [] \<and> (\<forall>c\<in>set region. is_region_char c)
           \<and> (cn = [] \<or> cn = js ''.cn'')
           \<and> account \<noteq> [] \<and> (\<forall>c\<in>set account. is_digit c)
           \<and> name \<noteq> [] \<and> (\<forall>c\<in>set name. \<not> is_line_terminator c)
      then Inr () else Inl (InvalidQueueUrl url))"
  unfolding validateQueueUrl_lang lang_urlPattern by simp

theorem validateQueueUrl_pattern_witness:
  "validateQueueUrl (js ''https://sqs.cn-north-1.amazonaws.com.cn/123456789012/orders.fifo'') = Inr ()"
proof -
  have "\<exists>region cn account name.
          js ''https://sqs.cn-north-1.amazonaws.com.cn/123456789012/orders.fifo''
            = js ''https://sqs.'' @ region @ js ''.amazonaws.com'' @ cn @ js ''/''
              @ account @ js ''/'' @ name
          \<and> region \<noteq> [] \<and> (\<forall>c\<in>set region. is_region_char c)
          \<and> (cn = [] \<or> cn = js ''.cn'')
          \<and> account \<noteq> [] \<and> (\<forall>c\<in>set account. is_digit c)
          \<and> name \<noteq> [] \<and> (\<forall>c\<in>set name. \<not> is_line_terminator c)"
    apply (rule exI [of _ "js ''cn-north-1''"])
    apply (rule exI [of _ "js ''.cn''"])
    apply (rule exI [of _ "js ''123456789012''"])
    apply (rule exI [of _ "js ''orders.fifo''"])
    apply (simp add: js_def is_region_char_def is_digit_def is_line_terminator_def)
    done
  then show ?thesis
    unfolding validateQueueUrl_pattern by (simp only: if_True)
qed

text \<open>
  C3 as stated fails: a queue name that contains a slash is accepted.
\<close>

theorem validateQueueUrl_slash_counterexample:
  "validateQueueUrl (js ''https://sqs.us-east-1.amazonaws.com/123456789012/a/b'') = Inr ()"
  by (simp add: validateQueueUrl_def urlPattern_def js_def RPlus_def ROpt_def
      is_region_char_def is_digit_def is_dot_def is_line_terminator_def)

section \<open>Base64\<close>



















section \<open>Parsing attributes\<close>

lemmas eval_json =
  JSON_parse_def js_def is_ws_def is_num_char_def is_digit_def hex4_def hex_val_def
  unescape_def number_rx_def RPlus_def ROpt_def

lemmas eval_entries =
  Object_entries_def Object_keys_def is_array_index_def digits_val_def indexed_def


lemmas eval_attrs =
  parseMessageAttributes_def parseMessageAttributes_try_def parse_entry_def get_def truthy_def
  validDataTypes_def assign_def Buffer_from_def Buffer_base64_def sextets_def low_byte_def
  b64_val_def List.map_filter_def

lemma parseMessageAttributes_entries:
  assumes "JSON_parse text = Inr parsed" and "Object_entries parsed = Inr es"
  shows "parseMessageAttributes P text =
           (if length es > 10 then Inl (ParseFailed (TooManyAttributes (length es)))
            else (case parse_entries P [] es of
                    Inl e \<Rightarrow> Inl (ParseFailed e)
                  | Inr attrs \<Rightarrow> Inr attrs))"
  using assms
  by (simp add: parseMessageAttributes_def parseMessageAttributes_try_def Object_keys_def)


lemma parse_entry_valid:
  assumes "get attr (js ''DataType'') = Some (JStr d)" and "d \<in> set validDataTypes"
  shows "parse_entry P key attr =
           (if (d = js ''String'' \<or> d = js ''Number'') \<and> get attr (js ''StringValue'') = None
            then Inl (MissingStringValue key d)
            else if d = js ''Binary'' \<and> get attr (js ''BinaryValue'') = None
            then Inl (MissingBinaryValue key)
            else
              (case (case get attr (js ''StringValue'') of
                       None \<Rightarrow> Inr None
                     | Some sv \<Rightarrow>
                         (case ToString P sv of None \<Rightarrow> Inl TypeError | Some t \<Rightarrow> Inr (Some t)))
               of
                 Inl e \<Rightarrow> Inl e
               | Inr sv \<Rightarrow>
                   (case get attr (js ''BinaryValue'') of
                      None \<Rightarrow> Inr \<lparr> DataType = d, StringValue = sv, BinaryValue = None \<rparr>
                    | Some bv \<Rightarrow>
                        (case Buffer_from P bv of
                           Inl e \<Rightarrow> Inl e
                         | Inr buffer \<Rightarrow>
                             Inr \<lparr> DataType = d, StringValue = sv, BinaryValue = Some buffer \<rparr>))))"
proof -
  from assms(1) have n: "attr \<noteq> JNull" by (auto simp: get_def)
  have ne: "js ''Binary'' \<noteq> js ''String''" "js ''Binary'' \<noteq> js ''Number''"
    "js ''String'' \<noteq> []" "js ''Number'' \<noteq> []" "js ''Binary'' \<noteq> []"
    by (simp_all add: js_def)
  from assms(2) ne have t: "d \<noteq> []" by (auto simp: validDataTypes_def)
  show ?thesis
    using assms n t ne
    by (auto simp: parse_entry_def truthy_def Let_def validDataTypes_def
        split: option.splits sum.splits)
qed



lemma obj_put_set: "set (obj_put k v kvs) \<subseteq> insert (k, v) (set kvs)"
  by (induction kvs) (auto split: if_splits)

lemma assign_set: "set (assign k v kvs) \<subseteq> insert (k, v) (set kvs)"
  using obj_put_set [of k v kvs] by (auto simp: assign_def)

lemma parse_entries_origin:
  "parse_entries P acc es = Inr attrs \<Longrightarrow> (k, m) \<in> set attrs \<Longrightarrow>
   (k, m) \<in> set acc \<or> (\<exists>attr. (k, attr) \<in> set es \<and> parse_entry P k attr = Inr m)"
proof (induction es arbitrary: acc)
  case Nil
  then show ?case by simp
next
  case (Cons entry es)
  obtain key attr where entry: "entry = (key, attr)" by (cases entry)
  from Cons.prems(1) entry obtain messageAttr where
    first: "parse_entry P key attr = Inr messageAttr" and
    rest: "parse_entries P (assign key messageAttr acc) es = Inr attrs"
    by (auto split: sum.splits)
  from Cons.IH [OF rest Cons.prems(2)] show ?case
  proof
    assume "(k, m) \<in> set (assign key messageAttr acc)"
    with assign_set [of key messageAttr acc]
    have "(k, m) = (key, messageAttr) \<or> (k, m) \<in> set acc" by auto
    with first entry show ?thesis by auto
  next
    assume "\<exists>attr. (k, attr) \<in> set es \<and> parse_entry P k attr = Inr m"
    with entry show ?thesis by auto
  qed
qed

lemma parse_entry_payload:
  assumes "parse_entry P key attr = Inr m"
  shows "DataType m \<in> set validDataTypes"
    and "DataType m = js ''String'' \<or> DataType m = js ''Number'' \<longrightarrow> StringValue m \<noteq> None"
    and "DataType m = js ''Binary'' \<longrightarrow> BinaryValue m \<noteq> None"
    and "StringValue m = None \<longleftrightarrow> get attr (js ''StringValue'') = None"
    and "BinaryValue m = None \<longleftrightarrow> get attr (js ''BinaryValue'') = None"
proof -
  from assms obtain dataType where
    dt: "get attr (js ''DataType'') = Some (JStr dataType)" "dataType \<in> set validDataTypes"
    by (auto simp: parse_entry_def split: if_splits option.splits json.splits)
  have ne: "js ''Binary'' \<noteq> js ''String''" "js ''Binary'' \<noteq> js ''Number''"
    by (simp_all add: js_def)
  from assms dt have
    m: "(case (case get attr (js ''StringValue'') of
                 None \<Rightarrow> Inr \<lparr> DataType = dataType, StringValue = None, BinaryValue = None \<rparr>
               | Some sv \<Rightarrow>
                   (case ToString P sv of
                      None \<Rightarrow> Inl TypeError
                    | Some text \<Rightarrow>
                        Inr (\<lparr> DataType = dataType, StringValue = None, BinaryValue = None \<rparr>
                             \<lparr>StringValue := Some text\<rparr>)))
         of
           Inl e \<Rightarrow> Inl e
         | Inr messageAttr \<Rightarrow>
             (case get attr (js ''BinaryValue'') of
                None \<Rightarrow> Inr messageAttr
              | Some bv \<Rightarrow>
                  (case Buffer_from P bv of
                     Inl e \<Rightarrow> Inl e
                   | Inr buffer \<Rightarrow> Inr (messageAttr\<lparr>BinaryValue := Some buffer\<rparr>)))) = Inr m"
    and sv: "dataType = js ''String'' \<or> dataType = js ''Number'' \<Longrightarrow>
             get attr (js ''StringValue'') \<noteq> None"
    and bv: "dataType = js ''Binary'' \<Longrightarrow> get attr (js ''BinaryValue'') \<noteq> None"
    using ne by (auto simp: parse_entry_def Let_def split: if_splits)
  from m have tag: "DataType m = dataType"
    and s: "StringValue m = None \<longleftrightarrow> get attr (js ''StringValue'') = None"
    and b: "BinaryValue m = None \<longleftrightarrow> get attr (js ''BinaryValue'') = None"
    by (auto split: option.splits sum.splits)
  from tag dt show "DataType m \<in> set validDataTypes" by simp
  from tag sv s show "DataType m = js ''String'' \<or> DataType m = js ''Number'' \<longrightarrow> StringValue m \<noteq> None"
    by auto
  from tag bv b show "DataType m = js ''Binary'' \<longrightarrow> BinaryValue m \<noteq> None"
    by auto
  from s show "StringValue m = None \<longleftrightarrow> get attr (js ''StringValue'') = None" .
  from b show "BinaryValue m = None \<longleftrightarrow> get attr (js ''BinaryValue'') = None" .
qed




lemma length_indexed: "length (indexed xs) = length xs"
  by (simp add: indexed_def)

lemma indexed_Cons: "\<exists>rest. indexed (x # xs) = (js ''0'', x) # rest"
proof -
  have u: "[0..<length (x # xs)] = 0 # [Suc 0..<length (x # xs)]"
    by (rule upt_conv_Cons) simp
  have d0: "decimal 0 = js ''0''"
    by (simp add: js_def)
  show ?thesis
    unfolding indexed_def u list.map zip_Cons_Cons d0 by blast
qed

lemma parse_entry_primitive:
  "parse_entry P key (JStr s) = Inl (MissingDataType key)"
  by (simp add: parse_entry_def get_def truthy_def)

text \<open>
  C2, as amended. A text that is not well-formed JSON fails with the syntax error, and a
  text that parses to \<open>null\<close> or to a non-empty string fails too. A text that parses
  to a number, a boolean, the empty string or the empty array gives the empty attribute
  map, and an array is read as the object keyed by its indices.
\<close>

theorem parseMessageAttributes_not_an_object:
  "(JSON_parse text = Inl e \<longrightarrow> parseMessageAttributes P text = Inl (ParseFailed e))
   \<and> (JSON_parse text = Inr JNull \<longrightarrow>
        parseMessageAttributes P text = Inl (ParseFailed TypeError))
   \<and> (JSON_parse text = Inr (JNum n) \<or> JSON_parse text = Inr (JBool b)
      \<or> JSON_parse text = Inr (JStr []) \<or> JSON_parse text = Inr (JArr []) \<longrightarrow>
        parseMessageAttributes P text = Inr [])
   \<and> (JSON_parse text = Inr (JStr s) \<and> s \<noteq> [] \<longrightarrow>
        parseMessageAttributes P text =
          Inl (ParseFailed (if length s > 10 then TooManyAttributes (length s)
                            else MissingDataType (js ''0''))))
   \<and> (JSON_parse text = Inr (JArr xs) \<longrightarrow>
        parseMessageAttributes P text =
          (if length xs > 10 then Inl (ParseFailed (TooManyAttributes (length xs)))
           else (case parse_entries P [] (indexed xs) of
                   Inl e \<Rightarrow> Inl (ParseFailed e)
                 | Inr attrs \<Rightarrow> Inr attrs)))"
proof -
  have a: "JSON_parse text = Inl e \<longrightarrow> parseMessageAttributes P text = Inl (ParseFailed e)"
    by (simp add: parseMessageAttributes_def parseMessageAttributes_try_def)
  have b: "JSON_parse text = Inr JNull \<longrightarrow>
        parseMessageAttributes P text = Inl (ParseFailed TypeError)"
    by (simp add: parseMessageAttributes_def parseMessageAttributes_try_def Object_keys_def
        Object_entries_def)
  have c: "JSON_parse text = Inr (JNum n) \<or> JSON_parse text = Inr (JBool b)
      \<or> JSON_parse text = Inr (JStr []) \<or> JSON_parse text = Inr (JArr []) \<longrightarrow>
        parseMessageAttributes P text = Inr []"
    by (auto simp: parseMessageAttributes_def parseMessageAttributes_try_def Object_keys_def
        Object_entries_def indexed_def)
  have d: "parseMessageAttributes P text =
          Inl (ParseFailed (if length s > 10 then TooManyAttributes (length s)
                            else MissingDataType (js ''0'')))"
    if p: "JSON_parse text = Inr (JStr s)" and "s \<noteq> []"
  proof -
    from \<open>s \<noteq> []\<close> obtain c cs where s: "s = c # cs" by (cases s) auto
    obtain rest where r: "indexed (map (\<lambda>c. JStr [c]) s) = (js ''0'', JStr [c]) # rest"
      using indexed_Cons [of "JStr [c]" "map (\<lambda>c. JStr [c]) cs"] s by auto
    have es: "Object_entries (JStr s) = Inr (indexed (map (\<lambda>c. JStr [c]) s))"
      by (simp add: Object_entries_def)
    have len: "length (indexed (map (\<lambda>c. JStr [c]) s)) = length s"
      by (simp add: length_indexed)
    show ?thesis
      unfolding parseMessageAttributes_entries [OF p es] len
      by (simp add: r parse_entry_primitive)
  qed
  have e: "JSON_parse text = Inr (JArr xs) \<longrightarrow>
        parseMessageAttributes P text =
          (if length xs > 10 then Inl (ParseFailed (TooManyAttributes (length xs)))
           else (case parse_entries P [] (indexed xs) of
                   Inl e \<Rightarrow> Inl (ParseFailed e)
                 | Inr attrs \<Rightarrow> Inr attrs))"
  proof
    assume p: "JSON_parse text = Inr (JArr xs)"
    have es: "Object_entries (JArr xs) = Inr (indexed xs)"
      by (simp add: Object_entries_def)
    show "parseMessageAttributes P text =
          (if length xs > 10 then Inl (ParseFailed (TooManyAttributes (length xs)))
           else (case parse_entries P [] (indexed xs) of
                   Inl e \<Rightarrow> Inl (ParseFailed e)
                 | Inr attrs \<Rightarrow> Inr attrs))"
      by (simp add: parseMessageAttributes_entries [OF p es] length_indexed)
  qed
  from a b c d e show ?thesis by blast
qed

theorem parseMessageAttributes_not_an_object_witness:
  \<open>parseMessageAttributes node (js ''{"a":'') = Inl (ParseFailed SyntaxError)
   \<and> parseMessageAttributes node (js ''null'') = Inl (ParseFailed TypeError)
   \<and> parseMessageAttributes node (js ''true'') = Inr []
   \<and> parseMessageAttributes node (js ''"abc"'') = Inl (ParseFailed (MissingDataType (js ''0'')))\<close>
proof -
  have p: \<open>JSON_parse (js ''{"a":'') = Inl SyntaxError\<close>
    \<open>JSON_parse (js ''null'') = Inr JNull\<close>
    \<open>JSON_parse (js ''true'') = Inr (JBool True)\<close>
    \<open>JSON_parse (js ''"abc"'') = Inr (JStr (js ''abc''))\<close>
    by (simp_all add: eval_json)
  have ne: "js ''abc'' \<noteq> []" "\<not> length (js ''abc'') > 10"
    by (simp_all add: js_def)
  note t = parseMessageAttributes_not_an_object
  have 1: \<open>parseMessageAttributes node (js ''{"a":'') = Inl (ParseFailed SyntaxError)\<close>
    using t [THEN conjunct1] p(1) by (rule mp)
  have 2: \<open>parseMessageAttributes node (js ''null'') = Inl (ParseFailed TypeError)\<close>
    using t [THEN conjunct2, THEN conjunct1] p(2) by (rule mp)
  have 3: \<open>parseMessageAttributes node (js ''true'') = Inr []\<close>
    using t [THEN conjunct2, THEN conjunct2, THEN conjunct1, of "js ''true''" _ True] p(3)
    by simp
  have 4: \<open>parseMessageAttributes node (js ''"abc"'')
             = Inl (ParseFailed (MissingDataType (js ''0'')))\<close>
    using t [THEN conjunct2, THEN conjunct2, THEN conjunct2, THEN conjunct1,
        of \<open>js ''"abc"''\<close> "js ''abc''" node] p(4) ne
    by simp
  from 1 2 3 4 show ?thesis by (intro conjI)
qed

text \<open>
  C2 as stated fails: \<open>5\<close> is well-formed JSON and not an object, and the parse
  returns an attribute map, the empty one.
\<close>

theorem parseMessageAttributes_number_counterexample:
  "parseMessageAttributes node (js ''5'') = Inr []"
  by (simp add: eval_json eval_entries eval_attrs)

text \<open>
  C5, as amended. Every attribute that \<open>parseMessageAttributes\<close> returns has one of the
  three type tags and carries the payload the tag asks for: a text when the tag is
  \<open>String\<close> or \<open>Number\<close>, bytes when it is \<open>Binary\<close>. It was read from an entry
  of the parsed text, and it carries a text exactly when that entry has a
  \<open>StringValue\<close> and bytes exactly when that entry has a \<open>BinaryValue\<close>: both, when
  the entry has both.
\<close>

theorem attribute_payloads:
  assumes "parseMessageAttributes P text = Inr attrs" and "(key, m) \<in> set attrs"
  shows "DataType m \<in> set validDataTypes
       \<and> (DataType m = js ''String'' \<or> DataType m = js ''Number'' \<longrightarrow> StringValue m \<noteq> None)
       \<and> (DataType m = js ''Binary'' \<longrightarrow> BinaryValue m \<noteq> None)
       \<and> (\<exists>parsed es attr.
             JSON_parse text = Inr parsed \<and> Object_entries parsed = Inr es
             \<and> (key, attr) \<in> set es \<and> parse_entry P key attr = Inr m
             \<and> (StringValue m = None \<longleftrightarrow> get attr (js ''StringValue'') = None)
             \<and> (BinaryValue m = None \<longleftrightarrow> get attr (js ''BinaryValue'') = None))"
proof -
  from assms(1) obtain parsed es where
    p: "JSON_parse text = Inr parsed" "Object_entries parsed = Inr es"
    and r: "parse_entries P [] es = Inr attrs"
    by (auto simp: parseMessageAttributes_def parseMessageAttributes_try_def Object_keys_def
        split: sum.splits if_splits)
  from parse_entries_origin [OF r assms(2)] obtain attr where
    a: "(key, attr) \<in> set es" "parse_entry P key attr = Inr m"
    by auto
  note q = parse_entry_payload [OF a(2)]
  have "\<exists>parsed es attr.
             JSON_parse text = Inr parsed \<and> Object_entries parsed = Inr es
             \<and> (key, attr) \<in> set es \<and> parse_entry P key attr = Inr m
             \<and> (StringValue m = None \<longleftrightarrow> get attr (js ''StringValue'') = None)
             \<and> (BinaryValue m = None \<longleftrightarrow> get attr (js ''BinaryValue'') = None)"
    by (rule exI [of _ parsed], rule exI [of _ es], rule exI [of _ attr])
       (simp add: p a q(4,5))
  with q(1,2,3) show ?thesis by (intro conjI)
qed

theorem attribute_payloads_witness:
  "DataType \<lparr> DataType = js ''Number'', StringValue = Some (js ''5''), BinaryValue = None \<rparr>
     \<in> set validDataTypes
   \<and> StringValue \<lparr> DataType = js ''Number'', StringValue = Some (js ''5''), BinaryValue = None \<rparr>
     \<noteq> None"
proof -
  have r: \<open>parseMessageAttributes node (js ''{"Priority":{"DataType":"Number","StringValue":"5"}}'')
             = Inr [(js ''Priority'',
                     \<lparr> DataType = js ''Number'', StringValue = Some (js ''5''), BinaryValue = None \<rparr>)]\<close>
    by (simp add: eval_json eval_entries eval_attrs)
  have m: "(js ''Priority'',
            \<lparr> DataType = js ''Number'', StringValue = Some (js ''5''), BinaryValue = None \<rparr>)
           \<in> set [(js ''Priority'',
                    \<lparr> DataType = js ''Number'', StringValue = Some (js ''5''), BinaryValue = None \<rparr>)]"
    by simp
  have n: "DataType \<lparr> DataType = js ''Number'', StringValue = Some (js ''5''), BinaryValue = None \<rparr>
             = js ''Number''"
    by simp
  from attribute_payloads [OF r m, THEN conjunct1]
    attribute_payloads [OF r m, THEN conjunct2, THEN conjunct1] n
  show ?thesis by blast
qed

text \<open>
  C5 as stated fails: an entry that has both fields gives an attribute that carries a text
  and bytes.
\<close>

theorem attribute_payloads_both_counterexample:
  \<open>parseMessageAttributes node
      (js ''{"b":{"DataType":"String","StringValue":"x","BinaryValue":"aGk="}}'')
   = Inr [(js ''b'', \<lparr> DataType = js ''String'', StringValue = Some (js ''x''),
                       BinaryValue = Some (map ucast (js ''hi'')) \<rparr>)]\<close>
  by (simp add: eval_json eval_entries eval_attrs)

section \<open>The rules and the functions that check them\<close>

text \<open>
  Each rule, stated on its own above, is violated exactly when the function of the source
  that checks it throws, and the error is the one it throws.
\<close>

lemma violation_simps:
  "violation (Inl e) = Some e" "violation (Inr x) = None"
  by (simp_all add: violation_def)

lemma url_violation_eq: "violation (validateQueueUrl url) = url_violation url"
  unfolding validateQueueUrl_lang lang_urlPattern url_violation_def
  by (simp add: violation_def)

lemma body_violation_eq: "violation (validateMessageBody body) = body_violation body"
  by (simp add: validateMessageBody_def body_violation_def violation_def Let_def)

lemma delay_violation_eq: "violation (validateDelaySeconds delay) = delay_violation delay"
  by (auto simp: validateDelaySeconds_def delay_violation_def violation_def split: option.splits)

lemma endsWith_iff: "endsWith url suffix \<longleftrightarrow> (\<exists>queue. url = queue @ suffix)"
proof
  assume "endsWith url suffix"
  then have "url = take (length url - length suffix) url @ suffix"
    by (simp add: endsWith_def) (metis append_take_drop_id)
  then show "\<exists>queue. url = queue @ suffix" ..
next
  assume "\<exists>queue. url = queue @ suffix"
  then show "endsWith url suffix"
    by (auto simp: endsWith_def)
qed

lemma fifo_violation_eq:
  "violation (snd (validateFifoQueue url groupId)) = fifo_violation url groupId"
  by (simp add: validateFifoQueue_def fifo_violation_def endsWith_iff [symmetric] violation_def
      Let_def lift_def emit_def ret_def)

lemma conversion_violation_eq:
  "conversion_violation P members =
     (case (case map_of members (js ''StringValue'') of
              None \<Rightarrow> Inr None
            | Some sv \<Rightarrow> (case ToString P sv of None \<Rightarrow> Inl TypeError | Some t \<Rightarrow> Inr (Some t)))
      of
        Inl e \<Rightarrow> Some e
      | Inr sv \<Rightarrow>
          (case map_of members (js ''BinaryValue'') of
             None \<Rightarrow> None
           | Some bv \<Rightarrow> violation (Buffer_from P bv)))"
  by (simp add: conversion_violation_def violation_def split: option.splits sum.splits)

lemma violation_payloads:
  "violation (case X of
                Inl e \<Rightarrow> Inl e
              | Inr sv \<Rightarrow>
                  (case B of
                     None \<Rightarrow> Inr (f sv)
                   | Some bv \<Rightarrow>
                       (case Buffer_from P bv of
                          Inl e \<Rightarrow> Inl e
                        | Inr buffer \<Rightarrow> Inr (g sv buffer))))
     = (case X of
          Inl e \<Rightarrow> Some e
        | Inr sv \<Rightarrow> (case B of None \<Rightarrow> None | Some bv \<Rightarrow> violation (Buffer_from P bv)))"
  by (simp add: violation_def split: sum.splits option.splits)

lemma entry_violation_valid:
  assumes "map_of members (js ''DataType'') = Some (JStr d)" and "d \<in> set validDataTypes"
  shows "violation (parse_entry P key (JObj members)) = entry_violation P key (JObj members)"
proof -
  have g: "get (JObj members) name = map_of members name" for name
    by (simp add: get_def)
  have ne: "js ''Binary'' \<noteq> js ''String''" "js ''Binary'' \<noteq> js ''Number''"
    "js ''String'' \<noteq> js ''Number''"
    "js ''String'' \<noteq> []" "js ''Number'' \<noteq> []" "js ''Binary'' \<noteq> []"
    by (simp_all add: js_def)
  from assms(1) have v: "get (JObj members) (js ''DataType'') = Some (JStr d)"
    by (simp add: g)
  note p = parse_entry_valid [OF v assms(2), of P key, unfolded g]
  from assms(2) consider "d = js ''String''" | "d = js ''Number''" | "d = js ''Binary''"
    by (auto simp: validDataTypes_def)
  then show ?thesis
  proof cases
    case 1
    show ?thesis
      unfolding p
      by (simp add: 1 ne ne [symmetric] assms(1) [unfolded 1] violation_simps violation_payloads
          conversion_violation_eq)
  next
    case 2
    show ?thesis
      unfolding p
      by (simp add: 2 ne ne [symmetric] assms(1) [unfolded 2] violation_simps violation_payloads
          conversion_violation_eq)
  next
    case 3
    show ?thesis
      unfolding p
      by (simp add: 3 ne ne [symmetric] assms(1) [unfolded 3] violation_simps violation_payloads
          conversion_violation_eq)
  qed
qed

lemma entry_violation_invalid:
  assumes "map_of members (js ''DataType'') = Some dt"
    and "\<not> (\<exists>d. dt = JStr d \<and> d \<in> set validDataTypes)"
  shows "violation (parse_entry P key (JObj members)) = entry_violation P key (JObj members)"
proof (cases dt)
  case (JStr d)
  with assms(2) have "d \<notin> set validDataTypes" by simp
  then have "d \<noteq> js ''String''" "d \<noteq> js ''Number''" "d \<noteq> js ''Binary''"
    by (auto simp: validDataTypes_def)
  with assms(1) JStr \<open>d \<notin> set validDataTypes\<close> show ?thesis
    by (simp add: parse_entry_def violation_def get_def truthy_def)
next
  case JNull
  with assms(1) show ?thesis
    by (simp add: parse_entry_def violation_def get_def truthy_def)
next
  case (JBool b)
  with assms(1) show ?thesis
    by (simp add: parse_entry_def violation_def get_def truthy_def split: option.splits)
next
  case (JNum n)
  with assms(1) show ?thesis
    by (simp add: parse_entry_def violation_def get_def truthy_def split: option.splits)
next
  case (JArr xs)
  with assms(1) show ?thesis
    by (simp add: parse_entry_def violation_def get_def truthy_def split: option.splits)
next
  case (JObj kvs)
  with assms(1) show ?thesis
    by (simp add: parse_entry_def violation_def get_def truthy_def split: option.splits)
qed

lemma entry_violation_eq: "violation (parse_entry P key attr) = entry_violation P key attr"
proof (cases attr)
  case JNull
  then show ?thesis by (simp add: parse_entry_def violation_def)
next
  case (JBool b)
  then show ?thesis by (simp add: parse_entry_def violation_def get_def truthy_def)
next
  case (JNum n)
  then show ?thesis by (simp add: parse_entry_def violation_def get_def truthy_def)
next
  case (JStr s)
  then show ?thesis by (simp add: parse_entry_def violation_def get_def truthy_def)
next
  case (JArr xs)
  then show ?thesis by (simp add: parse_entry_def violation_def get_def truthy_def)
next
  case (JObj members)
  show ?thesis
  proof (cases "map_of members (js ''DataType'')")
    case None
    with JObj show ?thesis
      by (simp add: parse_entry_def violation_def get_def truthy_def)
  next
    case (Some dt)
    show ?thesis
    proof (cases "\<exists>d. dt = JStr d \<and> d \<in> set validDataTypes")
      case True
      with Some JObj show ?thesis
        using entry_violation_valid [of members _ P key] by auto
    next
      case False
      with Some JObj show ?thesis
        using entry_violation_invalid [of members dt P key] by simp
    qed
  qed
qed

lemma entries_violation_eq:
  "violation (parse_entries P acc es)
     = first_some (map (\<lambda>entry. entry_violation P (fst entry) (snd entry)) es)"
proof (induction es arbitrary: acc)
  case Nil
  then show ?case by (simp add: violation_def)
next
  case (Cons entry es)
  obtain key attr where e: "entry = (key, attr)" by (cases entry)
  show ?case
  proof (cases "parse_entry P key attr")
    case (Inl c)
    then have "entry_violation P key attr = Some c"
      using entry_violation_eq [of P key attr] by (simp add: violation_def)
    with Inl show ?thesis
      by (simp add: e violation_def)
  next
    case (Inr m)
    then have "entry_violation P key attr = None"
      using entry_violation_eq [of P key attr] by (simp add: violation_def)
    with Inr Cons.IH [of "assign key m acc"] show ?thesis
      by (simp add: e)
  qed
qed

lemma schema_violation_eq:
  "violation (parseMessageAttributes P text) = map_option ParseFailed (schema_violation P text)"
proof (cases "JSON_parse text")
  case (Inl e)
  then show ?thesis
    by (simp add: parseMessageAttributes_def parseMessageAttributes_try_def schema_violation_def
        violation_def)
next
  case (Inr parsed)
  show ?thesis
  proof (cases "Object_entries parsed")
    case (Inl e)
    then have "parsed = JNull" "e = TypeError"
      by (auto simp: Object_entries_def split: json.splits)
    with Inr show ?thesis
      by (simp add: parseMessageAttributes_def parseMessageAttributes_try_def violation_def
          schema_violation_def Object_keys_def Object_entries_def)
  next
    case es: (Inr entries)
    then have nn: "parsed \<noteq> JNull"
      by (auto simp: Object_entries_def)
    have "violation (case parse_entries P [] entries of
                       Inl e \<Rightarrow> Inl (ParseFailed e) | Inr attrs \<Rightarrow> Inr attrs)
            = map_option ParseFailed (violation (parse_entries P [] entries))"
      by (simp add: violation_def split: sum.splits)
    moreover have "schema_violation P text =
            (if length entries > 10 then Some (TooManyAttributes (length entries))
             else first_some (map (\<lambda>entry. entry_violation P (fst entry) (snd entry)) entries))"
      using Inr es nn by (cases parsed) (simp_all add: schema_violation_def)
    ultimately show ?thesis
      by (simp add: parseMessageAttributes_entries [OF Inr es] entries_violation_eq
          violation_simps)
  qed
qed

lemma attributes_violation_eq:
  "attributes_violation P text =
     (if given text then violation (parseMessageAttributes P (the text)) else None)"
  by (simp add: attributes_violation_def schema_violation_eq)

text \<open>The first rule violated is the first error among those of the functions of the source.\<close>

lemma first_violation_code:
  "first_violation P config =
     first_some
       [violation (validateQueueUrl (queueUrl config)),
        violation (validateMessageBody (messageBody config)),
        violation (validateDelaySeconds (delaySeconds config)),
        violation (snd (validateFifoQueue (queueUrl config) (messageGroupId config))),
        if given (messageAttributes config)
        then violation (parseMessageAttributes P (the (messageAttributes config))) else None,
        if given (systemAttributes config)
        then violation (parseSystemAttributes P (the (systemAttributes config))) else None]"
  by (simp only: first_violation_def rules_def url_violation_eq body_violation_eq
      delay_violation_eq fifo_violation_eq attributes_violation_eq parseSystemAttributes_def)

section \<open>The stages of sendMessage\<close>

lemma snd_bind: "snd (bind m f) = (case snd m of Inl e \<Rightarrow> Inl e | Inr x \<Rightarrow> snd (f x))"
  by (simp add: bind_def split: prod.splits sum.splits)

lemma fst_bind:
  "fst (bind m f) = (case snd m of Inl e \<Rightarrow> fst m | Inr x \<Rightarrow> fst m @ fst (f x))"
  by (simp add: bind_def split: prod.splits sum.splits)



lemma snd_validateInputs:
  "snd (validateInputs config) =
     (case validateQueueUrl (queueUrl config) of Inl e \<Rightarrow> Inl e | Inr _ \<Rightarrow>
      case validateMessageBody (messageBody config) of Inl e \<Rightarrow> Inl e | Inr _ \<Rightarrow>
      case validateDelaySeconds (delaySeconds config) of Inl e \<Rightarrow> Inl e | Inr _ \<Rightarrow>
      snd (validateFifoQueue (queueUrl config) (messageGroupId config)))"
  by (simp add: validateInputs_def snd_bind lift_def split: sum.splits)



lemma snd_addDelaySeconds:
  "snd (addDelaySeconds config input) =
     Inr (case delaySeconds config of
            None \<Rightarrow> input
          | Some d \<Rightarrow> if d > 0 then input\<lparr>DelaySeconds := Some d\<rparr> else input)"
  by (simp add: addDelaySeconds_def snd_bind ret_def emit_def split: option.splits)


lemma snd_addMessageAttributes:
  "snd (addMessageAttributes P config input) =
     (if given (messageAttributes config)
      then (case parseMessageAttributes P (the (messageAttributes config)) of
              Inl e \<Rightarrow> Inl e
            | Inr attrs \<Rightarrow> Inr (input\<lparr>MessageAttributes := Some attrs\<rparr>))
      else Inr input)"
  by (simp add: addMessageAttributes_def snd_bind ret_def emit_def lift_def given_def
      split: option.splits sum.splits)


lemma snd_addSystemAttributes:
  "snd (addSystemAttributes P config input) =
     (if given (systemAttributes config)
      then (case parseSystemAttributes P (the (systemAttributes config)) of
              Inl e \<Rightarrow> Inl e
            | Inr attrs \<Rightarrow> Inr (input\<lparr>MessageSystemAttributes := Some attrs\<rparr>))
      else Inr input)"
  by (simp add: addSystemAttributes_def snd_bind ret_def emit_def lift_def given_def
      split: option.splits sum.splits)


lemma snd_addGroupId:
  "snd (addGroupId config input) =
     Inr (if given (messageGroupId config)
          then input\<lparr>MessageGroupId := messageGroupId config\<rparr> else input)"
  by (simp add: addGroupId_def snd_bind ret_def emit_def given_def split: option.splits)


lemma snd_addDeduplicationId:
  "snd (addDeduplicationId config input) =
     Inr (if given (messageDeduplicationId config)
          then input\<lparr>MessageDeduplicationId := messageDeduplicationId config\<rparr> else input)"
  by (simp add: addDeduplicationId_def snd_bind ret_def emit_def given_def split: option.splits)




lemma snd_buildInput:
  "snd (buildInput P config) =
     (case first_violation P config of Some e \<Rightarrow> Inl e | None \<Rightarrow> Inr (builtInput P config))"
proof -
  note unfold = buildInput_def snd_bind snd_validateInputs emit_def snd_addDelaySeconds
    snd_addMessageAttributes snd_addSystemAttributes snd_addGroupId snd_addDeduplicationId
    first_violation_code violation_def
  show ?thesis
  proof (cases "validateQueueUrl (queueUrl config)")
    case (Inl e)
    then show ?thesis by (simp add: unfold)
  next
    case url: (Inr u)
    show ?thesis
    proof (cases "validateMessageBody (messageBody config)")
      case (Inl e)
      with url show ?thesis by (simp add: unfold)
    next
      case body: (Inr u)
      show ?thesis
      proof (cases "validateDelaySeconds (delaySeconds config)")
        case (Inl e)
        with url body show ?thesis by (simp add: unfold)
      next
        case delay: (Inr u)
        then have d: "(case delaySeconds config of
                         None \<Rightarrow> newInput config
                       | Some d \<Rightarrow> if d > 0 then (newInput config)\<lparr>DelaySeconds := Some d\<rparr>
                                  else newInput config)
                      = (newInput config)\<lparr>DelaySeconds :=
                          (if delaySeconds config = Some 0 then None else delaySeconds config)\<rparr>"
          by (auto simp: validateDelaySeconds_def newInput_def split: option.splits if_splits)
        show ?thesis
        proof (cases "snd (validateFifoQueue (queueUrl config) (messageGroupId config))")
          case (Inl e)
          with url body delay show ?thesis by (simp add: unfold)
        next
          case fifo: (Inr u)
          show ?thesis
          proof (cases "given (messageAttributes config)
                        \<and> isl (parseMessageAttributes P (the (messageAttributes config)))")
            case True
            then obtain e where "given (messageAttributes config)"
              "parseMessageAttributes P (the (messageAttributes config)) = Inl e"
              by (cases "parseMessageAttributes P (the (messageAttributes config))") auto
            with url body delay fifo show ?thesis by (simp add: unfold)
          next
            case msg: False
            show ?thesis
            proof (cases "given (systemAttributes config)
                          \<and> isl (parseSystemAttributes P (the (systemAttributes config)))")
              case True
              then obtain e where "given (systemAttributes config)"
                "parseSystemAttributes P (the (systemAttributes config)) = Inl e"
                by (cases "parseSystemAttributes P (the (systemAttributes config))") auto
              with url body delay fifo msg show ?thesis
                by (cases "parseMessageAttributes P (the (messageAttributes config))")
                   (simp_all add: unfold)
            next
              case sys: False
              from url body delay fifo msg sys show ?thesis
                by (cases "parseMessageAttributes P (the (messageAttributes config))";
                    cases "parseSystemAttributes P (the (systemAttributes config))")
                   (simp_all add: unfold d, simp_all add: builtInput_def newInput_def)
            qed
          qed
        qed
      qed
    qed
  qed
qed

lemma sendMessage_alt:
  "sendMessage P client config =
     (case snd (sendMessage_try P client config) of
        Inr result \<Rightarrow> (fst (sendMessage_try P client config), result)
      | Inl e \<Rightarrow> (fst (sendMessage_try P client config) @ [ErrorLine e], failure e))"
  by (simp add: sendMessage_def failure_def split: prod.splits sum.splits)

lemma snd_send:
  "snd (send client input) =
     (case client input of
        Fulfilled response \<Rightarrow> Inr response
      | Rejected message \<Rightarrow> Inl (SendRejected message))"
  by (simp add: send_def snd_bind emit_def ret_def lift_def split: send_outcome.splits)


lemma snd_sendMessage_try:
  "snd (sendMessage_try P client config) =
     (case first_violation P config of
        Some e \<Rightarrow> Inl e
      | None \<Rightarrow>
          (case client (builtInput P config) of
             Fulfilled response \<Rightarrow> Inr (succeeded response)
           | Rejected message \<Rightarrow> Inl (SendRejected message)))"
  by (simp add: sendMessage_try_def snd_bind snd_buildInput snd_send emit_def ret_def
      succeeded_def split: option.splits send_outcome.splits)


lemma snd_sendMessage:
  "snd (sendMessage P client config) =
     (case first_violation P config of
        Some e \<Rightarrow> failure e
      | None \<Rightarrow>
          (case client (builtInput P config) of
             Fulfilled response \<Rightarrow> succeeded response
           | Rejected message \<Rightarrow> failure (SendRejected message)))"
  by (simp add: sendMessage_alt snd_sendMessage_try split: option.splits send_outcome.splits)


section \<open>Body size and delay\<close>

lemma byteLength_utf8_Cons:
  "\<not> is_high_surrogate c \<Longrightarrow> byteLength_utf8 (c # cs) = unit_bytes c + byteLength_utf8 cs"
  by (cases cs) auto

lemma byteLength_utf8_replicate:
  "\<not> is_high_surrogate c \<Longrightarrow> byteLength_utf8 (replicate n c) = n * unit_bytes c"
  by (induction n) (auto simp: byteLength_utf8_Cons)

text \<open>
  C6. \<open>validateMessageBody\<close> measures the UTF-8 byte length of the body and fails, with
  the error that quotes the length, exactly when it exceeds 262144: a body of 262144 bytes
  passes, one of 262145 bytes fails. The length is in bytes, not in characters: 131073
  times the two-byte character U+00E9 is under the limit in characters and fails.
\<close>

theorem validateMessageBody_limit:
  "validateMessageBody body =
     (if byteLength_utf8 body > 262144 then Inl (BodyTooLarge (byteLength_utf8 body)) else Inr ())
   \<and> (byteLength_utf8 body = 262144 \<longrightarrow> validateMessageBody body = Inr ())
   \<and> (byteLength_utf8 body = 262145 \<longrightarrow> validateMessageBody body = Inl (BodyTooLarge 262145))
   \<and> length (replicate 131073 (0xE9 :: jschar)) \<le> 262144
   \<and> validateMessageBody (replicate 131073 0xE9) = Inl (BodyTooLarge 262146)"
  by (simp add: validateMessageBody_def Let_def byteLength_utf8_replicate
      is_high_surrogate_def unit_bytes_def)

theorem validateMessageBody_limit_witness:
  "validateMessageBody (replicate 262144 0x61) = Inr ()
   \<and> validateMessageBody (replicate 262145 0x61) = Inl (BodyTooLarge 262145)
   \<and> validateMessageBody (replicate 87382 0x20AC) = Inl (BodyTooLarge 262146)"
proof -
  have a: "byteLength_utf8 (replicate 262144 0x61) = 262144"
    by (simp add: byteLength_utf8_replicate is_high_surrogate_def unit_bytes_def)
  have b: "byteLength_utf8 (replicate 262145 0x61) = 262145"
    by (simp add: byteLength_utf8_replicate is_high_surrogate_def unit_bytes_def)
  have c: "byteLength_utf8 (replicate 87382 0x20AC) = 262146"
    by (simp add: byteLength_utf8_replicate is_high_surrogate_def unit_bytes_def)
  show ?thesis
    using validateMessageBody_limit [of "replicate 262144 0x61"]
      validateMessageBody_limit [of "replicate 262145 0x61"]
      validateMessageBody_limit [of "replicate 87382 0x20AC"]
    by (simp only: a b c) simp
qed

lemma plain_ok: "first_violation P plain = None"
  by (simp add: first_violation_code violation_def plain_def given_def
      validateQueueUrl_def urlPattern_def js_def RPlus_def ROpt_def
      is_region_char_def is_digit_def is_dot_def is_line_terminator_def
      validateMessageBody_def unit_bytes_def validateDelaySeconds_def
      validateFifoQueue_def endsWith_def ret_def lift_def emit_def)

text \<open>
  C7. An absent delay is valid. A delay that is present fails exactly when it is outside
  \<open>0 \<le> delay \<le> 900\<close>: -1 and 901 fail, 0 and 900 pass. The request that is built
  has no delay field when the delay is absent or 0, and the delay of the configuration
  otherwise.
\<close>

theorem validateDelaySeconds_range:
  "validateDelaySeconds None = Inr ()
   \<and> validateDelaySeconds (Some d) =
       (if 0 \<le> d \<and> d \<le> 900 then Inr () else Inl (DelayOutOfRange d))
   \<and> validateDelaySeconds (Some (- 1)) = Inl (DelayOutOfRange (- 1))
   \<and> validateDelaySeconds (Some 901) = Inl (DelayOutOfRange 901)
   \<and> validateDelaySeconds (Some 0) = Inr ()
   \<and> validateDelaySeconds (Some 900) = Inr ()
   \<and> (\<forall>input. snd (buildInput P config) = Inr input \<longrightarrow>
        DelaySeconds input = (if delaySeconds config = Some 0 then None else delaySeconds config))"
  by (auto simp: validateDelaySeconds_def snd_buildInput builtInput_def split: option.splits)

theorem validateDelaySeconds_range_witness:
  "validateDelaySeconds (Some 450) = Inr ()
   \<and> snd (buildInput node plain) = Inr (builtInput node plain)
   \<and> DelaySeconds (builtInput node plain) = None
   \<and> DelaySeconds (builtInput node (plain\<lparr>delaySeconds := None\<rparr>)) = None"
proof -
  have ok: "snd (buildInput node plain) = Inr (builtInput node plain)"
    by (simp add: snd_buildInput plain_ok)
  show ?thesis
    using validateDelaySeconds_range [of 450 node plain] ok
    by (simp add: builtInput_def plain_def)
qed

section \<open>FIFO queues, fail-fast validation and the result\<close>

lemmas eval_rules =
  first_violation_code violation_def given_def
  validateQueueUrl_def urlPattern_def js_def RPlus_def ROpt_def
  is_region_char_def is_digit_def is_dot_def is_line_terminator_def
  validateMessageBody_def unit_bytes_def validateDelaySeconds_def
  validateFifoQueue_def endsWith_def ret_def lift_def emit_def

lemma fst_validateInputs:
  "validateQueueUrl (queueUrl config) = Inr () \<Longrightarrow>
   validateMessageBody (messageBody config) = Inr () \<Longrightarrow>
   validateDelaySeconds (delaySeconds config) = Inr () \<Longrightarrow>
   fst (validateInputs config) = fst (validateFifoQueue (queueUrl config) (messageGroupId config))"
  by (simp add: validateInputs_def fst_bind lift_def)

lemma fst_buildInput_prefix:
  "snd (validateInputs config) = Inr () \<Longrightarrow>
   \<exists>rest. fst (buildInput P config) = fst (validateInputs config) @ rest"
  by (simp add: buildInput_def fst_bind)

text \<open>
  C8. A group ID counts as given when it is a non-empty string, which is how the source
  tests it. For every queue URL that ends in \<open>.fifo\<close> with no group ID given,
  \<open>validateFifoQueue\<close> fails with the error that asks for one. For every URL that
  does not end in \<open>.fifo\<close> with a group ID given, it logs the warning and returns
  normally; the warning is in the log of the request's construction when the three
  earlier validations pass; and whenever a request is built, a given group ID is in it.
\<close>

theorem validateFifoQueue_group:
  "(endsWith url (js ''.fifo'') \<and> \<not> given g \<longrightarrow>
      validateFifoQueue url g = ([], Inl GroupIdRequired))
   \<and> (\<not> endsWith url (js ''.fifo'') \<and> given g \<longrightarrow>
      validateFifoQueue url g = ([Warning], Inr ()))
   \<and> (validateQueueUrl (queueUrl config) = Inr ()
      \<and> validateMessageBody (messageBody config) = Inr ()
      \<and> validateDelaySeconds (delaySeconds config) = Inr ()
      \<and> \<not> endsWith (queueUrl config) (js ''.fifo'') \<and> given (messageGroupId config) \<longrightarrow>
      Warning \<in> set (fst (buildInput P config)))
   \<and> (\<forall>input. snd (buildInput P config) = Inr input \<and> given (messageGroupId config) \<longrightarrow>
      MessageGroupId input = messageGroupId config)"
proof -
  have a: "endsWith url (js ''.fifo'') \<and> \<not> given g \<longrightarrow>
      validateFifoQueue url g = ([], Inl GroupIdRequired)"
    by (simp add: validateFifoQueue_def lift_def)
  have b: "\<not> endsWith url (js ''.fifo'') \<and> given g \<longrightarrow>
      validateFifoQueue url g = ([Warning], Inr ())" for url g
    by (simp add: validateFifoQueue_def emit_def)
  have c: "Warning \<in> set (fst (buildInput P config))"
    if "validateQueueUrl (queueUrl config) = Inr ()"
      "validateMessageBody (messageBody config) = Inr ()"
      "validateDelaySeconds (delaySeconds config) = Inr ()"
      "\<not> endsWith (queueUrl config) (js ''.fifo'')" "given (messageGroupId config)"
  proof -
    from that b have w: "validateFifoQueue (queueUrl config) (messageGroupId config) = ([Warning], Inr ())"
      by simp
    with that have "fst (validateInputs config) = [Warning]" "snd (validateInputs config) = Inr ()"
      by (simp_all add: fst_validateInputs snd_validateInputs)
    with fst_buildInput_prefix [of config P] show ?thesis by auto
  qed
  have d: "\<forall>input. snd (buildInput P config) = Inr input \<and> given (messageGroupId config) \<longrightarrow>
      MessageGroupId input = messageGroupId config"
    by (auto simp: snd_buildInput builtInput_def split: option.splits)
  from a b c d show ?thesis by blast
qed

theorem validateFifoQueue_group_witness:
  "validateFifoQueue (js ''https://sqs.us-east-1.amazonaws.com/123456789012/q.fifo'') None
     = ([], Inl GroupIdRequired)
   \<and> validateFifoQueue (js ''https://sqs.us-east-1.amazonaws.com/123456789012/q'') (Some (js ''g1''))
     = ([Warning], Inr ())
   \<and> Warning \<in> set (fst (buildInput node (plain\<lparr>messageGroupId := Some (js ''g1'')\<rparr>)))
   \<and> MessageGroupId (builtInput node (plain\<lparr>messageGroupId := Some (js ''g1'')\<rparr>)) = Some (js ''g1'')"
proof -
  let ?c = "plain\<lparr>messageGroupId := Some (js ''g1'')\<rparr>"
  have f: "endsWith (js ''https://sqs.us-east-1.amazonaws.com/123456789012/q.fifo'') (js ''.fifo'')"
    "\<not> endsWith (js ''https://sqs.us-east-1.amazonaws.com/123456789012/q'') (js ''.fifo'')"
    "\<not> given None" "given (Some (js ''g1''))"
    by (simp_all add: endsWith_def js_def given_def)
  have v: "validateQueueUrl (queueUrl ?c) = Inr ()" "validateMessageBody (messageBody ?c) = Inr ()"
    "validateDelaySeconds (delaySeconds ?c) = Inr ()"
    "\<not> endsWith (queueUrl ?c) (js ''.fifo'')" "given (messageGroupId ?c)"
    by (simp_all add: plain_def eval_rules)
  have ok: "first_violation node ?c = None"
    by (simp add: plain_def eval_rules)
  then have s: "snd (buildInput node ?c) = Inr (builtInput node ?c)"
    by (simp add: snd_buildInput)
  note t1 = validateFifoQueue_group
    [of "js ''https://sqs.us-east-1.amazonaws.com/123456789012/q.fifo''" None ?c node]
  note t2 = validateFifoQueue_group
    [of "js ''https://sqs.us-east-1.amazonaws.com/123456789012/q''" "Some (js ''g1'')" ?c node]
  have a: "validateFifoQueue (js ''https://sqs.us-east-1.amazonaws.com/123456789012/q.fifo'') None
             = ([], Inl GroupIdRequired)"
    using t1 [THEN conjunct1] f(1,3) by (rule mp [OF _ conjI])
  have b: "validateFifoQueue (js ''https://sqs.us-east-1.amazonaws.com/123456789012/q'') (Some (js ''g1''))
             = ([Warning], Inr ())"
    using t2 [THEN conjunct2, THEN conjunct1] f(2,4) by (rule mp [OF _ conjI])
  have c: "Warning \<in> set (fst (buildInput node ?c))"
    using t2 [THEN conjunct2, THEN conjunct2, THEN conjunct1] v by blast
  have d: "MessageGroupId (builtInput node ?c) = Some (js ''g1'')"
    using t2 [THEN conjunct2, THEN conjunct2, THEN conjunct2] s v(5)
    by (simp add: plain_def)
  from a b c d show ?thesis by (intro conjI)
qed



text \<open>
  C10. \<open>sendMessage\<close> is a function of the configuration and of what the client
  answers, and always returns a result. When no rule is violated and the client answers
  with a response, the result has \<open>success\<close> true, the fields of the response and no
  error. When a rule is violated, or the client rejects the request, it has \<open>success\<close>
  false, the error, and no other field. So every result is of exactly one of the two kinds.
\<close>

theorem sendMessage_result:
  "snd (sendMessage P client config) =
     (case first_violation P config of
        Some e \<Rightarrow> failure e
      | None \<Rightarrow>
          (case client (builtInput P config) of
             Fulfilled response \<Rightarrow> succeeded response
           | Rejected message \<Rightarrow> failure (SendRejected message)))
   \<and> (success (snd (sendMessage P client config))
        \<and> error (snd (sendMessage P client config)) = None
        \<and> (\<exists>response. client (builtInput P config) = Fulfilled response
              \<and> snd (sendMessage P client config) = succeeded response)
      \<or> \<not> success (snd (sendMessage P client config))
        \<and> (\<exists>e. snd (sendMessage P client config) = failure e)
        \<and> error (snd (sendMessage P client config)) \<noteq> None
        \<and> messageId (snd (sendMessage P client config)) = None
        \<and> sequenceNumber (snd (sendMessage P client config)) = None
        \<and> md5OfBody (snd (sendMessage P client config)) = None
        \<and> md5OfAttributes (snd (sendMessage P client config)) = None)"
  by (simp add: snd_sendMessage failure_def succeeded_def
      split: option.splits send_outcome.splits)

theorem sendMessage_result_witness:
  "snd (sendMessage node (\<lambda>_. Fulfilled \<lparr> MessageId = Some (js ''m-1''), SequenceNumber = None,
          MD5OfMessageBody = Some (js ''49f68a5c''), MD5OfMessageAttributes = None \<rparr>) plain)
     = \<lparr> success = True, messageId = Some (js ''m-1''), sequenceNumber = None,
         md5OfBody = Some (js ''49f68a5c''), md5OfAttributes = None, error = None \<rparr>
   \<and> snd (sendMessage node (\<lambda>_. Rejected (js ''AccessDenied'')) plain)
     = \<lparr> success = False, messageId = None, sequenceNumber = None, md5OfBody = None,
         md5OfAttributes = None, error = Some (SendRejected (js ''AccessDenied'')) \<rparr>
   \<and> snd (sendMessage node (\<lambda>_. Rejected (js ''AccessDenied'')) (plain\<lparr>delaySeconds := Some 901\<rparr>))
     = \<lparr> success = False, messageId = None, sequenceNumber = None, md5OfBody = None,
         md5OfAttributes = None, error = Some (DelayOutOfRange 901) \<rparr>"
proof -
  have v: "first_violation node (plain\<lparr>delaySeconds := Some 901\<rparr>) = Some (DelayOutOfRange 901)"
    by (simp add: plain_def eval_rules)
  show ?thesis
    using sendMessage_result [of node "\<lambda>_. Fulfilled \<lparr> MessageId = Some (js ''m-1''),
          SequenceNumber = None, MD5OfMessageBody = Some (js ''49f68a5c''),
          MD5OfMessageAttributes = None \<rparr>" plain, THEN conjunct1]
      sendMessage_result [of node "\<lambda>_. Rejected (js ''AccessDenied'')" plain, THEN conjunct1]
      sendMessage_result [of node "\<lambda>_. Rejected (js ''AccessDenied'')"
          "plain\<lparr>delaySeconds := Some 901\<rparr>", THEN conjunct1]
    by (simp add: plain_ok v failure_def succeeded_def)
qed

section \<open>The delay text\<close>

lemmas eval_run =
  run_def run_try_def sendMessage_def sendMessage_try_def send_def buildInput_def
  validateInputs_def newInput_def addDelaySeconds_def addMessageAttributes_def
  addSystemAttributes_def addGroupId_def addDeduplicationId_def bind_def
  getInput_def getInput_required_def trim_def to_double_def or_undefined_def set_output_def parseInt10_def digits_val_def
  is_str_ws_def example_inputs_def

text \<open>
  C4. With the delay text \<open>12abc\<close> the run hands a request to the client, with a delay
  of 12 seconds: \<open>parseInt\<close> reads the digits and ignores the rest. With \<open>abc\<close>
  the run fails before anything is sent, with the error that says the value must be a
  number.
\<close>

theorem run_accepts_12abc:
  "submitted (run node (example_inputs (js ''12abc'')) (\<lambda>_. Rejected (js ''AccessDenied'')))
     = [\<lparr> QueueUrl = js ''https://sqs.us-east-1.amazonaws.com/123456789012/q'',
          MessageBody = js ''hi'', DelaySeconds = Some 12, MessageAttributes = None,
          MessageSystemAttributes = None, MessageGroupId = None,
          MessageDeduplicationId = None \<rparr>]
   \<and> run node (example_inputs (js ''abc'')) (\<lambda>_. Rejected (js ''AccessDenied''))
     = [Info Banner,
        Info (QueueUrlLine (js ''https://sqs.us-east-1.amazonaws.com/123456789012/q'')),
        SetFailed (InvalidDelaySeconds (js ''abc''))]"
  by (simp add: eval_run eval_rules)

end
